theory Spec2Isabelle
  imports Main
begin

section \<open>Values, errors and the schema\<close>

text \<open>
  The values that travel through \<^verbatim>\<open>DatabaseTableQuery.ts\<close>: cells of fetched rows, parsed
  column values and the shaped results. JavaScript tells \<^verbatim>\<open>undefined\<close> from \<^verbatim>\<open>null\<close>
  (\<^verbatim>\<open>groupRows\<close> returns \<^verbatim>\<open>undefined\<close> for a table without selection, \<^verbatim>\<open>??\<close> replaces
  both), so both are values here. An object is the list of its entries in insertion order.
\<close>

datatype jsval =
    VUndefined
  | VNull
  | VBool bool
  | VNum int
  | VStr string
  | VArr "jsval list"
  | VObj "(string \<times> jsval) list"

text \<open>Every \<^verbatim>\<open>throw new Error(...)\<close> of the source, and the TypeError of reading a property of
  \<^verbatim>\<open>undefined\<close>. The numbers are the \<^verbatim>\<open>results.length\<close> the message prints.\<close>

datatype error =
    Expected1Result nat
  | ExpectedMaybe1Result nat
  | ExpectedAtLeast1Result
  | NoResultForSingleJoin
  | MultipleResultsForSingleJoin
  | TableNotFound string
  | ColumnNotFound string string
  | TypeError
  | ParseError string
  | Unreachable

text \<open>A row of the driver: \<^verbatim>\<open>Record<string, unknown>\<close>. Reading a missing key gives
  \<^verbatim>\<open>undefined\<close>.\<close>

type_synonym row = "(string \<times> jsval) list"

definition getProp :: "(string \<times> jsval) list \<Rightarrow> string \<Rightarrow> jsval" where
  "getProp r k = (case map_of r k of None \<Rightarrow> VUndefined | Some v \<Rightarrow> v)"

text \<open>\<^verbatim>\<open>result[col] = v\<close>: an existing key keeps its place, a new key goes last.\<close>

fun setProp :: "(string \<times> jsval) list \<Rightarrow> string \<Rightarrow> jsval \<Rightarrow> (string \<times> jsval) list" where
  "setProp [] k v = [(k, v)]"
| "setProp ((k', v') # r) k v = (if k' = k then (k, v) # r else (k', v') # setProp r k v)"

text \<open>\<^verbatim>\<open>a ?? b\<close>.\<close>

definition nullish :: "jsval \<Rightarrow> jsval \<Rightarrow> jsval" where
  "nullish a b = (if a = VUndefined \<or> a = VNull then b else a)"

text \<open>\<^verbatim>\<open>results[0]\<close>: \<^verbatim>\<open>undefined\<close> on the empty array.\<close>

fun index0 :: "jsval list \<Rightarrow> jsval" where
  "index0 [] = VUndefined"
| "index0 (x # xs) = x"

text \<open>A column of the schema. The source reads only \<^verbatim>\<open>column[PRIV].primary\<close>; what else a
  column holds (its datatype, read by \<^verbatim>\<open>parseColumn\<close>) stays a parameter.\<close>

record 'd SchemaColumn =
  primary :: bool
  coltype :: 'd

text \<open>\<^verbatim>\<open>schema.tables\<close>: table name to columns, both in declaration order
  (\<^verbatim>\<open>Object.entries\<close>).\<close>

type_synonym 'd Schema = "(string \<times> (string \<times> 'd SchemaColumn) list) list"

datatype PipeKind = KMany | KOne | KMaybeOne | KFirst | KMaybeFirst

datatype OrderDirection = Asc | Desc

type_synonym OrderingTerm = "string \<times> OrderDirection"

section \<open>The query value\<close>

text \<open>
  \<^verbatim>\<open>DatabaseTableQueryInternal\<close> with its \<^verbatim>\<open>QueryParent\<close>. A selection
  \<^verbatim>\<open>{col: true, ...}\<close> is the list of its keys, a where \<^verbatim>\<open>{col: value, ...}\<close> the list of
  its entries.
\<close>

datatype 'd Internal =
  Internal
    (int_schema: "'d Schema")
    (int_table: string)
    (int_selection: "string list option")
    (int_where: "(string \<times> jsval) list option")
    (int_limit: "(int option \<times> int option) option")
    (int_orderBy: "OrderingTerm list option")
    (int_parent: "'d QueryParent option")
and 'd QueryParent =
  QueryParent
    (par_kind: PipeKind)
    (par_currentCol: string)
    (par_joinCol: string)
    (par_query: "'d Internal")

record ResolvedQuery =
  table :: string
  tableAlias :: string
  limit :: "int option"
  offset :: "int option"
  columns :: "string list option"
  joinColumns :: "string list"
  primaryColumns :: "string list"
  where_r :: "(string \<times> jsval) list option"
  orderBy :: "OrderingTerm list option"

record ResolvedJoin =
  kind :: PipeKind
  currentCol :: string
  joinCol :: string

record ResolvedJoinItem =
  query :: ResolvedQuery
  join :: ResolvedJoin

type_synonym Resolved = "ResolvedQuery \<times> ResolvedJoinItem list"

section \<open>Query objects and the builder operations\<close>

text \<open>
  A \<^verbatim>\<open>DatabaseTableQuery\<close> object: the read-only \<^verbatim>\<open>[PRIV]\<close> and \<^verbatim>\<open>getDb\<close>, and the two
  private caches that \<^verbatim>\<open>getResolved\<close> and \<^verbatim>\<open>getPreparedStatement\<close> fill. What the driver
  makes of \<^verbatim>\<open>prepare(queryText)\<close> and \<^verbatim>\<open>bind(params)\<close> is recorded as the text and the
  bound parameters; the driver itself (and what it may throw) is outside the model.
\<close>

record Statement =
  source :: string
  bound :: "(string \<times> jsval) list option"

record ('d, 'db) DatabaseTableQuery =
  getDb :: 'db
  preparedStatement :: "Statement option"
  resolved :: "Resolved option"
  PRIV :: "'d Internal"

text \<open>
  Objects live in a store; an object's address is its index, \<^verbatim>\<open>new\<close> allocates the next
  one. A builder takes the store and the address of its receiver and returns the store
  with the new object, and that object's address.
\<close>

type_synonym ('d, 'db) store = "('d, 'db) DatabaseTableQuery list"

definition new_DatabaseTableQuery ::
  "('d, 'db) store \<Rightarrow> 'db \<Rightarrow> 'd Internal \<Rightarrow> ('d, 'db) store \<times> nat" where
  "new_DatabaseTableQuery h g internal =
     (h @ [\<lparr>getDb = g, preparedStatement = None, resolved = None, PRIV = internal\<rparr>], length h)"

definition create :: "('d, 'db) store \<Rightarrow> 'db \<Rightarrow> 'd Schema \<Rightarrow> string \<Rightarrow> ('d, 'db) store \<times> nat" where
  "create h g schema tbl =
     new_DatabaseTableQuery h g (Internal schema tbl None None None None None)"

text \<open>\<^verbatim>\<open>{ ...this[PRIV], selection }\<close> and its siblings: a copy with one field replaced.\<close>

definition select :: "('d, 'db) store \<Rightarrow> nat \<Rightarrow> string list \<Rightarrow> ('d, 'db) store \<times> nat" where
  "select h this selection =
     (let i = PRIV (h ! this) in
      new_DatabaseTableQuery h (getDb (h ! this))
        (Internal (int_schema i) (int_table i) (Some selection) (int_where i) (int_limit i)
           (int_orderBy i) (int_parent i)))"

definition where_q ::
  "('d, 'db) store \<Rightarrow> nat \<Rightarrow> (string \<times> jsval) list \<Rightarrow> ('d, 'db) store \<times> nat" where
  "where_q h this wh =
     (let i = PRIV (h ! this) in
      new_DatabaseTableQuery h (getDb (h ! this))
        (Internal (int_schema i) (int_table i) (int_selection i) (Some wh) (int_limit i)
           (int_orderBy i) (int_parent i)))"

text \<open>\<^verbatim>\<open>limit(limit, offset = null)\<close>: a call without offset passes \<open>None\<close>.\<close>

definition limit_q ::
  "('d, 'db) store \<Rightarrow> nat \<Rightarrow> int option \<Rightarrow> int option \<Rightarrow> ('d, 'db) store \<times> nat" where
  "limit_q h this lim off =
     (let i = PRIV (h ! this) in
      new_DatabaseTableQuery h (getDb (h ! this))
        (Internal (int_schema i) (int_table i) (int_selection i) (int_where i) (Some (lim, off))
           (int_orderBy i) (int_parent i)))"

text \<open>
  The two overloads of \<^verbatim>\<open>orderBy\<close>: a column with an optional direction (then
  \<^verbatim>\<open>start = [[arg1, arg2 ?? 'Asc']]\<close> and there are no \<^verbatim>\<open>others\<close>), or one ordering term
  and more of them (then \<^verbatim>\<open>arg2\<close> is the second term if there is one, and
  \<^verbatim>\<open>[...start, ...others]\<close> is all of them in order).
\<close>

datatype orderBy_args =
    OrderByColumn string "OrderDirection option"
  | OrderByTerms OrderingTerm "OrderingTerm list"

fun orderBy_terms :: "orderBy_args \<Rightarrow> OrderingTerm list" where
  "orderBy_terms (OrderByColumn arg1 arg2) =
     [(arg1, (case arg2 of None \<Rightarrow> Asc | Some d \<Rightarrow> d))]"
| "orderBy_terms (OrderByTerms arg1 []) = [arg1]"
| "orderBy_terms (OrderByTerms arg1 (arg2 # others)) = [arg1, arg2] @ others"

definition orderBy_q ::
  "('d, 'db) store \<Rightarrow> nat \<Rightarrow> orderBy_args \<Rightarrow> ('d, 'db) store \<times> nat" where
  "orderBy_q h this args =
     (let i = PRIV (h ! this) in
      new_DatabaseTableQuery h (getDb (h ! this))
        (Internal (int_schema i) (int_table i) (int_selection i) (int_where i) (int_limit i)
           (Some (orderBy_terms args)) (int_parent i)))"

definition pipeInternal ::
  "('d, 'db) store \<Rightarrow> nat \<Rightarrow> PipeKind \<Rightarrow> string \<Rightarrow> string \<Rightarrow> string \<Rightarrow> ('d, 'db) store \<times> nat" where
  "pipeInternal h this k curCol tbl jCol =
     (let i = PRIV (h ! this) in
      new_DatabaseTableQuery h (getDb (h ! this))
        (Internal (int_schema i) tbl None None None None
           (Some (QueryParent k curCol jCol i))))"

definition pipe :: "('d, 'db) store \<Rightarrow> nat \<Rightarrow> string \<Rightarrow> string \<Rightarrow> string \<Rightarrow> ('d, 'db) store \<times> nat" where
  "pipe h this curCol tbl jCol = pipeInternal h this KMany curCol tbl jCol"

definition pipeOne :: "('d, 'db) store \<Rightarrow> nat \<Rightarrow> string \<Rightarrow> string \<Rightarrow> string \<Rightarrow> ('d, 'db) store \<times> nat" where
  "pipeOne h this curCol tbl jCol = pipeInternal h this KOne curCol tbl jCol"

definition pipeMaybeOne :: "('d, 'db) store \<Rightarrow> nat \<Rightarrow> string \<Rightarrow> string \<Rightarrow> string \<Rightarrow> ('d, 'db) store \<times> nat" where
  "pipeMaybeOne h this curCol tbl jCol = pipeInternal h this KMaybeOne curCol tbl jCol"

definition pipeFirst :: "('d, 'db) store \<Rightarrow> nat \<Rightarrow> string \<Rightarrow> string \<Rightarrow> string \<Rightarrow> ('d, 'db) store \<times> nat" where
  "pipeFirst h this curCol tbl jCol = pipeInternal h this KFirst curCol tbl jCol"

definition pipeMaybeFirst :: "('d, 'db) store \<Rightarrow> nat \<Rightarrow> string \<Rightarrow> string \<Rightarrow> string \<Rightarrow> ('d, 'db) store \<times> nat" where
  "pipeMaybeFirst h this curCol tbl jCol = pipeInternal h this KMaybeFirst curCol tbl jCol"

text \<open>
  What a where \<^verbatim>\<open>{col: value, ...}\<close> asks of a row (every listed column holds the given
  value), and the where that the specification describes for a second call of
  \<^verbatim>\<open>where\<close>: the conjunction of the existing entries and the new ones.
\<close>

definition whereHolds :: "(string \<times> jsval) list option \<Rightarrow> row \<Rightarrow> bool" where
  "whereHolds w r =
     (case w of None \<Rightarrow> True | Some es \<Rightarrow> list_all (\<lambda>(col, v). getProp r col = v) es)"

definition where_and_spec ::
  "(string \<times> jsval) list option \<Rightarrow> (string \<times> jsval) list \<Rightarrow> (string \<times> jsval) list" where
  "where_and_spec w p2 = (case w of None \<Rightarrow> p2 | Some p1 \<Rightarrow> p1 @ p2)"

text \<open>The builder calls, as one type, so that a statement can range over all of them.\<close>

datatype builder_call =
    Select "string list"
  | Where "(string \<times> jsval) list"
  | Limit "int option" "int option"
  | OrderBy orderBy_args
  | Pipe string string string
  | PipeOne string string string
  | PipeMaybeOne string string string
  | PipeFirst string string string
  | PipeMaybeFirst string string string

fun builder :: "('d, 'db) store \<Rightarrow> nat \<Rightarrow> builder_call \<Rightarrow> ('d, 'db) store \<times> nat" where
  "builder h this (Select s) = select h this s"
| "builder h this (Where w) = where_q h this w"
| "builder h this (Limit l off) = limit_q h this l off"
| "builder h this (OrderBy a) = orderBy_q h this a"
| "builder h this (Pipe c t j) = pipe h this c t j"
| "builder h this (PipeOne c t j) = pipeOne h this c t j"
| "builder h this (PipeMaybeOne c t j) = pipeMaybeOne h this c t j"
| "builder h this (PipeFirst c t j) = pipeFirst h this c t j"
| "builder h this (PipeMaybeFirst c t j) = pipeMaybeFirst h this c t j"

section \<open>Resolving a query and emitting its statement\<close>

text \<open>\<^verbatim>\<open>`_${depth}`\<close>: the decimal digits of a number.\<close>

definition digit_char :: "nat \<Rightarrow> char" where
  "digit_char n = ''0123456789'' ! (n mod 10)"

fun string_of_nat :: "nat \<Rightarrow> string" where
  "string_of_nat n =
     (if n < 10 then [digit_char n] else string_of_nat (n div 10) @ [digit_char (n mod 10)])"

declare string_of_nat.simps [simp del]

text \<open>Modelled from the spec: \<^verbatim>\<open>dotCol\<close> of \<^verbatim>\<open>./Utils\<close> is not under src/. Its call site
  says what it builds (\<^verbatim>\<open>// alias to "table.col"\<close>).\<close>

definition dotCol :: "string \<Rightarrow> string \<Rightarrow> string" where
  "dotCol tbl col = tbl @ ''.'' @ col"

text \<open>
  \<^verbatim>\<open>resolveInternal(query, parentJoinCol, depth)\<close>. The schema is the one of the object it
  is called on, at every depth. The table of a query that the schema does not have makes
  \<^verbatim>\<open>schema.tables[query.table][PRIV]\<close> a TypeError.
\<close>

definition primaryColumnsOf :: "(string \<times> 'd SchemaColumn) list \<Rightarrow> string list" where
  "primaryColumnsOf cols = map fst (filter (\<lambda>(key, column). primary column) cols)"

definition isNotNull_filter :: "'a option list \<Rightarrow> 'a list" where
  "isNotNull_filter xs = concat (map (\<lambda>x. case x of None \<Rightarrow> [] | Some v \<Rightarrow> [v]) xs)"

fun resolveInternal ::
  "'d Schema \<Rightarrow> 'd Internal \<Rightarrow> string option \<Rightarrow> nat \<Rightarrow> error + Resolved" where
  "resolveInternal schema (Internal sch tbl sel wh lim ob par) parentJoinCol depth =
     (case map_of schema tbl of
        None \<Rightarrow> Inl TypeError
      | Some cols \<Rightarrow>
          (let jCol = (case par of None \<Rightarrow> None | Some p \<Rightarrow> Some (par_joinCol p));
               r = \<lparr>table = tbl,
                    tableAlias = ''_'' @ string_of_nat depth,
                    limit = (case lim of None \<Rightarrow> None | Some l \<Rightarrow> fst l),
                    offset = (case lim of None \<Rightarrow> None | Some l \<Rightarrow> snd l),
                    columns = sel,
                    joinColumns = isNotNull_filter [jCol, parentJoinCol],
                    primaryColumns = primaryColumnsOf cols,
                    where_r = wh,
                    orderBy = ob\<rparr>
           in case par of
                None \<Rightarrow> Inr (r, [])
              | Some (QueryParent k curCol jc pq) \<Rightarrow>
                  (case resolveInternal schema pq (Some curCol) (depth + 1) of
                     Inl e \<Rightarrow> Inl e
                   | Inr (innerQuery, innerJoins) \<Rightarrow>
                       Inr (innerQuery,
                            innerJoins @
                              [\<lparr>query = r,
                                join = \<lparr>kind = k, currentCol = curCol, joinCol = jc\<rparr>\<rparr>]))))"

text \<open>\<^verbatim>\<open>getResolved\<close>: the cache is filled by the first call that succeeds.\<close>

definition getResolved ::
  "('d, 'db) DatabaseTableQuery \<Rightarrow> (error + Resolved) \<times> ('d, 'db) DatabaseTableQuery" where
  "getResolved this =
     (case resolved this of
        Some r \<Rightarrow> (Inr r, this)
      | None \<Rightarrow>
          (case resolveInternal (int_schema (PRIV this)) (PRIV this) None 0 of
             Inl e \<Rightarrow> (Inl e, this)
           | Inr r \<Rightarrow> (Inr r, this\<lparr>resolved := Some r\<rparr>)))"

text \<open>The nodes of \<^verbatim>\<open>zensqlite\<close> that the source builds.\<close>

datatype Expr =
    Column string "string option"
  | DottedColumn string
  | Literal jsval
  | Equal Expr Expr
  | And Expr Expr
  | BindParameter string

datatype ResultColumn =
    ResultColumnExpr Expr string
  | ResultColumnTableStar string

datatype JoinOperator = JoinLeft

record LimitNode =
  limit_expr :: Expr
  limit_offset :: "Expr option"

record OrderingTermNode =
  ord_expr :: Expr
  ord_direction :: OrderDirection

datatype SelectStmt =
  SelectStmt
    (resultColumns: "ResultColumn list")
    (from_clause: SelectFrom)
    (where_clause: "Expr option")
    (limit_clause: "LimitNode option")
    (orderBy_clause: "OrderingTermNode list option")
and SelectFrom =
    FromTable string string
  | FromJoin TableOrSubquery JoinOperator TableOrSubquery Expr
and TableOrSubquery =
    TosSelect SelectStmt string
  | TosTable string string

text \<open>
  What the source calls and src/ does not hold: \<^verbatim>\<open>createWhere\<close>, \<^verbatim>\<open>paramsFromMap\<close>,
  \<^verbatim>\<open>dedupe\<close> and \<^verbatim>\<open>arrayEqual\<close> of \<^verbatim>\<open>./Utils\<close>, \<^verbatim>\<open>parseColumn\<close> of \<^verbatim>\<open>./schema\<close> and
  \<^verbatim>\<open>printNode\<close> of \<^verbatim>\<open>zensqlite\<close>. They are parameters. \<^verbatim>\<open>createWhere\<close> writes to the map
  of values to parameter names that it is given, so it returns the map as well.
\<close>

type_synonym valuesParamsMap = "(jsval \<times> string) list"

record 'd env =
  createWhere :: "valuesParamsMap \<Rightarrow> (string \<times> jsval) list option \<Rightarrow> string
                   \<Rightarrow> Expr option \<times> valuesParamsMap"
  paramsFromMap :: "valuesParamsMap \<Rightarrow> (string \<times> jsval) list option"
  printNode :: "SelectStmt \<Rightarrow> string"
  dedupe :: "string list \<Rightarrow> string list"
  arrayEqual :: "jsval list \<Rightarrow> jsval list \<Rightarrow> bool"
  parseColumn :: "'d SchemaColumn \<Rightarrow> jsval \<Rightarrow> error + jsval"

record JoinArg =
  ja_join :: ResolvedJoin
  ja_query :: ResolvedQuery
  ja_select :: SelectStmt

definition createOrderBy :: "OrderingTerm list option \<Rightarrow> string \<Rightarrow> OrderingTermNode list option" where
  "createOrderBy ob alias =
     (case ob of
        None \<Rightarrow> None
      | Some terms \<Rightarrow>
          (let nodes = map (\<lambda>(col, dir). \<lparr>ord_expr = Column col (Some alias), ord_direction = dir\<rparr>) terms
           in if nodes = [] then None else Some nodes))"

definition createLimit :: "int option \<Rightarrow> int option \<Rightarrow> LimitNode option" where
  "createLimit lim off =
     (case lim of
        None \<Rightarrow> None
      | Some l \<Rightarrow>
          Some \<lparr>limit_expr = Literal (VNum l),
                limit_offset = (case off of None \<Rightarrow> None | Some ofs \<Rightarrow> Some (Literal (VNum ofs)))\<rparr>)"

definition createFrom :: "ResolvedQuery \<Rightarrow> JoinArg option \<Rightarrow> SelectFrom" where
  "createFrom r j =
     (case j of
        Some ja \<Rightarrow>
          FromJoin
            (TosSelect (ja_select ja) (tableAlias (ja_query ja)))
            JoinLeft
            (TosTable (table r) (tableAlias r))
            (Equal
               (DottedColumn (dotCol (tableAlias (ja_query ja)) (currentCol (ja_join ja))))
               (DottedColumn (dotCol (tableAlias r) (joinCol (ja_join ja)))))
      | None \<Rightarrow> FromTable (table r) (tableAlias r))"

definition resolvedQueryToSelect ::
  "'d env \<Rightarrow> valuesParamsMap \<Rightarrow> ResolvedQuery \<Rightarrow> JoinArg option \<Rightarrow> SelectStmt \<times> valuesParamsMap" where
  "resolvedQueryToSelect E m r j =
     (let cols =
            map (\<lambda>col. ResultColumnExpr (Column col (Some (tableAlias r))) (dotCol (tableAlias r) col))
              (dedupe E
                 ((case columns r of None \<Rightarrow> [] | Some cs \<Rightarrow> cs) @ joinColumns r @ primaryColumns r));
          star = (case j of None \<Rightarrow> None | Some ja \<Rightarrow> Some (ResultColumnTableStar (tableAlias (ja_query ja))));
          fr = createFrom r j;
          (wh, m') = createWhere E m (where_r r) (tableAlias r)
      in (SelectStmt (cols @ isNotNull_filter [star]) fr wh
            (createLimit (limit r) (offset r))
            (createOrderBy (orderBy r) (tableAlias r)),
          m'))"

text \<open>The \<^verbatim>\<open>joins.forEach\<close> of \<^verbatim>\<open>getPreparedStatement\<close>, with the three variables it
  assigns.\<close>

fun wrapJoins ::
  "'d env \<Rightarrow> valuesParamsMap \<Rightarrow> ResolvedQuery \<Rightarrow> SelectStmt \<Rightarrow> ResolvedJoinItem list
     \<Rightarrow> SelectStmt \<times> valuesParamsMap" where
  "wrapJoins E m prevQuery queryNode [] = (queryNode, m)"
| "wrapJoins E m prevQuery queryNode (item # items) =
     (let (queryNode', m') =
            resolvedQueryToSelect E m (query item)
              (Some \<lparr>ja_join = join item, ja_query = prevQuery, ja_select = queryNode\<rparr>)
      in wrapJoins E m' (query item) queryNode' items)"

text \<open>The first lines of \<^verbatim>\<open>getPreparedStatement\<close>: a new map of values to parameter names,
  the select of the base query, and the joins wrapped around it.\<close>

definition buildQueryNode :: "'d env \<Rightarrow> Resolved \<Rightarrow> SelectStmt \<times> valuesParamsMap" where
  "buildQueryNode E r =
     (let (queryNode0, m0) = resolvedQueryToSelect E [] (fst r) None
      in wrapJoins E m0 (fst r) queryNode0 (snd r))"

definition getPreparedStatement ::
  "'d env \<Rightarrow> ('d, 'db) DatabaseTableQuery \<Rightarrow> (error + Statement) \<times> ('d, 'db) DatabaseTableQuery" where
  "getPreparedStatement E this =
     (case preparedStatement this of
        Some st \<Rightarrow> (Inr st, this)
      | None \<Rightarrow>
          (case getResolved this of
             (Inl e, this1) \<Rightarrow> (Inl e, this1)
           | (Inr r, this1) \<Rightarrow>
               (let (queryNode, m) = buildQueryNode E r;
                    queryText = printNode E queryNode;
                    params = paramsFromMap E m;
                    st = \<lparr>source = queryText, bound = params\<rparr>
                in (Inr st, this1\<lparr>preparedStatement := Some st\<rparr>))))"

text \<open>
  What a terminal operation has emitted before it shapes rows: the text and the bound
  parameters of the statement of \<^verbatim>\<open>getPreparedStatement()\<close>, and the resolved query
  that \<^verbatim>\<open>buildResult\<close> takes from \<^verbatim>\<open>getResolved()\<close> as its plan.
\<close>

definition emit ::
  "'d env \<Rightarrow> ('d, 'db) DatabaseTableQuery
     \<Rightarrow> (error + string \<times> (string \<times> jsval) list option \<times> Resolved) \<times> ('d, 'db) DatabaseTableQuery" where
  "emit E this =
     (case getPreparedStatement E this of
        (Inl e, this1) \<Rightarrow> (Inl e, this1)
      | (Inr st, this1) \<Rightarrow>
          (case getResolved this1 of
             (Inl e, this2) \<Rightarrow> (Inl e, this2)
           | (Inr r, this2) \<Rightarrow> (Inr (source st, bound st, r), this2)))"

text \<open>
  The names of the columns of the rows that a statement fetches, to state which cells a
  row has: a result column with an alias is named by its alias, and \<^verbatim>\<open>t.*\<close> stands for
  the columns of what the from clause calls \<^verbatim>\<open>t\<close>, a subquery's own fetched columns or
  a table's columns (\<open>tc\<close> gives the columns of a table).
\<close>

fun fetchedColumns :: "(string \<Rightarrow> string list) \<Rightarrow> SelectStmt \<Rightarrow> string list"
  and starColumns :: "(string \<Rightarrow> string list) \<Rightarrow> SelectFrom \<Rightarrow> string \<Rightarrow> string list"
  and tosColumns :: "(string \<Rightarrow> string list) \<Rightarrow> TableOrSubquery \<Rightarrow> string \<Rightarrow> string list" where
  "fetchedColumns tc (SelectStmt rcs fr wh lim ob) =
     concat (map (\<lambda>rc. case rc of
                          ResultColumnExpr e a \<Rightarrow> [a]
                        | ResultColumnTableStar t \<Rightarrow> starColumns tc fr t) rcs)"
| "starColumns tc (FromTable name a) t = (if a = t then tc name else [])"
| "starColumns tc (FromJoin l op r on) t = tosColumns tc l t @ tosColumns tc r t"
| "tosColumns tc (TosSelect sel a) t = (if a = t then fetchedColumns tc sel else [])"
| "tosColumns tc (TosTable name a) t = (if a = t then tc name else [])"

section \<open>Building the result\<close>

definition getColumnSchema :: "'d Schema \<Rightarrow> string \<Rightarrow> string \<Rightarrow> error + 'd SchemaColumn" where
  "getColumnSchema schema tbl col =
     (case map_of schema tbl of
        None \<Rightarrow> Inl (TableNotFound tbl)
      | Some tableSchema \<Rightarrow>
          (case map_of tableSchema col of
             None \<Rightarrow> Inl (ColumnNotFound col tbl)
           | Some columnSchema \<Rightarrow> Inr columnSchema))"

text \<open>\<^verbatim>\<open>transformJoin(results, kind)\<close>, branch by branch; the last line is
  \<^verbatim>\<open>expectNever(kind)\<close>.\<close>

definition transformJoin :: "jsval list \<Rightarrow> PipeKind \<Rightarrow> error + jsval" where
  "transformJoin results k =
     (if k = KMany then Inr (VArr results)
      else if k = KMaybeFirst then Inr (nullish (index0 results) VNull)
      else if k = KFirst then
        (if length results = 0 then Inl NoResultForSingleJoin else Inr (index0 results))
      else if length results > 1 then Inl MultipleResultsForSingleJoin
      else if k = KMaybeOne then Inr (nullish (index0 results) VNull)
      else if k = KOne then
        (if length results = 0 then Inl NoResultForSingleJoin else Inr (index0 results))
      else Inl Unreachable)"

text \<open>The groups of \<^verbatim>\<open>groupRows\<close>: \<^verbatim>\<open>{ keys, rows }\<close>.\<close>

record Group =
  keys :: "jsval list"
  rows :: "row list"

text \<open>\<^verbatim>\<open>groups.find((g) => arrayEqual(g.keys, keys))\<close>, then \<^verbatim>\<open>group.rows.push(row)\<close> or
  \<^verbatim>\<open>groups.push({ keys, rows: [row] })\<close>.\<close>

fun pushRow :: "(jsval list \<Rightarrow> jsval list \<Rightarrow> bool) \<Rightarrow> Group list \<Rightarrow> jsval list \<Rightarrow> row \<Rightarrow> Group list" where
  "pushRow eq [] ks r = [\<lparr>keys = ks, rows = [r]\<rparr>]"
| "pushRow eq (g # gs) ks r =
     (if eq (keys g) ks then g\<lparr>rows := rows g @ [r]\<rparr> # gs else g # pushRow eq gs ks r)"

text \<open>The body of \<^verbatim>\<open>rows.forEach\<close>: a row with a \<^verbatim>\<open>null\<close> among its key cells is left
  out.\<close>

definition addRow :: "'d env \<Rightarrow> string list \<Rightarrow> Group list \<Rightarrow> row \<Rightarrow> Group list" where
  "addRow E colsKey groups r =
     (let ks = map (\<lambda>col. getProp r col) colsKey
      in if VNull \<in> set ks then groups else pushRow (arrayEqual E) groups ks r)"

definition makeGroups :: "'d env \<Rightarrow> ResolvedQuery \<Rightarrow> row list \<Rightarrow> Group list" where
  "makeGroups E q rs =
     foldl (addRow E (map (\<lambda>col. dotCol (tableAlias q) col) (primaryColumns q))) [] rs"

text \<open>\<^verbatim>\<open>query.columns.forEach\<close>: the schema of the column, the raw cell of the group's
  first row, its parsed value, in this order; each may throw.\<close>

fun shapeColumns ::
  "'d env \<Rightarrow> 'd Schema \<Rightarrow> ResolvedQuery \<Rightarrow> Group \<Rightarrow> (string \<times> jsval) list \<Rightarrow> string list
     \<Rightarrow> error + (string \<times> jsval) list" where
  "shapeColumns E schema q g result [] = Inr result"
| "shapeColumns E schema q g result (col # cols) =
     (case getColumnSchema schema (table q) col of
        Inl e \<Rightarrow> Inl e
      | Inr colSchema \<Rightarrow>
          (case rows g of
             [] \<Rightarrow> Inl TypeError
           | r0 # _ \<Rightarrow>
               (case parseColumn E colSchema (getProp r0 (dotCol (tableAlias q) col)) of
                  Inl e \<Rightarrow> Inl e
                | Inr v \<Rightarrow> shapeColumns E schema q g (setProp result col v) cols)))"

text \<open>\<^verbatim>\<open>Array.prototype.map\<close> with a callback that may throw: the first throw ends it.\<close>

fun mapE :: "('a \<Rightarrow> error + 'b) \<Rightarrow> 'a list \<Rightarrow> error + 'b list" where
  "mapE f [] = Inr []"
| "mapE f (x # xs) =
     (case f x of
        Inl e \<Rightarrow> Inl e
      | Inr y \<Rightarrow> (case mapE f xs of Inl e \<Rightarrow> Inl e | Inr ys \<Rightarrow> Inr (y # ys)))"

fun groupRows ::
  "'d env \<Rightarrow> 'd Schema \<Rightarrow> ResolvedQuery \<Rightarrow> ResolvedJoinItem list \<Rightarrow> row list \<Rightarrow> error + jsval list" where
  "groupRows E schema q joins rs =
     mapE
       (\<lambda>g.
          case shapeColumns E schema q g [] (case columns q of None \<Rightarrow> [] | Some cs \<Rightarrow> cs) of
            Inl e \<Rightarrow> Inl e
          | Inr result \<Rightarrow>
              (case joins of
                 [] \<Rightarrow> Inr (if columns q = None then VUndefined else VObj result)
               | j # nextJoins \<Rightarrow>
                   (case groupRows E schema (query j) nextJoins (rows g) of
                      Inl e \<Rightarrow> Inl e
                    | Inr joinResult \<Rightarrow>
                        (case transformJoin joinResult (kind (join j)) of
                           Inl e \<Rightarrow> Inl e
                         | Inr joinContent \<Rightarrow>
                             Inr (if columns q = None then joinContent
                                  else if joinContent \<noteq> VUndefined
                                  then VObj (setProp result (table (query j)) joinContent)
                                  else VObj result)))))
       (makeGroups E q rs)"

declare groupRows.simps [simp del]

definition buildResult ::
  "'d env \<Rightarrow> ('d, 'db) DatabaseTableQuery \<Rightarrow> row list
     \<Rightarrow> (error + jsval list) \<times> ('d, 'db) DatabaseTableQuery" where
  "buildResult E this rs =
     (case getResolved this of
        (Inl e, this1) \<Rightarrow> (Inl e, this1)
      | (Inr (q, joins), this1) \<Rightarrow> (groupRows E (int_schema (PRIV this)) q joins rs, this1))"

section \<open>The terminal operations\<close>


definition one ::
  "'d env \<Rightarrow> ('d, 'db) DatabaseTableQuery \<Rightarrow> row list
     \<Rightarrow> (error + jsval) \<times> ('d, 'db) DatabaseTableQuery" where
  "one E this rs =
     (case getPreparedStatement E this of
        (Inl e, this1) \<Rightarrow> (Inl e, this1)
      | (Inr st, this1) \<Rightarrow>
          (case buildResult E this1 rs of
             (Inl e, this2) \<Rightarrow> (Inl e, this2)
           | (Inr results, this2) \<Rightarrow>
               (if length results \<noteq> 1 then Inl (Expected1Result (length results))
                else Inr (index0 results), this2)))"

definition maybeOne ::
  "'d env \<Rightarrow> ('d, 'db) DatabaseTableQuery \<Rightarrow> row list
     \<Rightarrow> (error + jsval) \<times> ('d, 'db) DatabaseTableQuery" where
  "maybeOne E this rs =
     (case getPreparedStatement E this of
        (Inl e, this1) \<Rightarrow> (Inl e, this1)
      | (Inr st, this1) \<Rightarrow>
          (case buildResult E this1 rs of
             (Inl e, this2) \<Rightarrow> (Inl e, this2)
           | (Inr results, this2) \<Rightarrow>
               (if length results > 1 then Inl (ExpectedMaybe1Result (length results))
                else Inr (nullish (index0 results) VNull), this2)))"

definition first ::
  "'d env \<Rightarrow> ('d, 'db) DatabaseTableQuery \<Rightarrow> row list
     \<Rightarrow> (error + jsval) \<times> ('d, 'db) DatabaseTableQuery" where
  "first E this rs =
     (case getPreparedStatement E this of
        (Inl e, this1) \<Rightarrow> (Inl e, this1)
      | (Inr st, this1) \<Rightarrow>
          (case buildResult E this1 rs of
             (Inl e, this2) \<Rightarrow> (Inl e, this2)
           | (Inr results, this2) \<Rightarrow>
               (if length results = 0 then Inl ExpectedAtLeast1Result
                else Inr (index0 results), this2)))"

definition maybeFirst ::
  "'d env \<Rightarrow> ('d, 'db) DatabaseTableQuery \<Rightarrow> row list
     \<Rightarrow> (error + jsval) \<times> ('d, 'db) DatabaseTableQuery" where
  "maybeFirst E this rs =
     (case getPreparedStatement E this of
        (Inl e, this1) \<Rightarrow> (Inl e, this1)
      | (Inr st, this1) \<Rightarrow>
          (case buildResult E this1 rs of
             (Inl e, this2) \<Rightarrow> (Inl e, this2)
           | (Inr results, this2) \<Rightarrow> (Inr (nullish (index0 results) VNull), this2)))"

section \<open>Sample data\<close>

text \<open>
  A schema with the users and the join table of the repository's tests, and one choice of
  the functions that are parameters, to run the definitions on. The query
  \<open>users_tasks_obj\<close> is
  \<^verbatim>\<open>users.select({id, name}).pipe('id', 'joinUsersTasks', 'user_id').select({task_id})\<close>,
  and \<open>users_tasks_rows\<close> are the rows of its left join over the users 1 to 4 and the
  join rows (1,1), (1,2), (2,3), (3,1).
\<close>

definition sample_schema :: "unit Schema" where
  "sample_schema =
     [(''users'', [(''id'', \<lparr>primary = True, coltype = ()\<rparr>), (''name'', \<lparr>primary = False, coltype = ()\<rparr>)]),
      (''joinUsersTasks'', [(''user_id'', \<lparr>primary = True, coltype = ()\<rparr>), (''task_id'', \<lparr>primary = True, coltype = ()\<rparr>)])]"

fun sample_conditions ::
  "valuesParamsMap \<Rightarrow> (string \<times> jsval) list \<Rightarrow> string \<Rightarrow> Expr list \<times> valuesParamsMap" where
  "sample_conditions m [] a = ([], m)"
| "sample_conditions m ((k, v) # es) a =
     (let name = (case map_of m v of Some n \<Rightarrow> n | None \<Rightarrow> ''p'' @ string_of_nat (length m));
          m' = (if map_of m v = None then m @ [(v, name)] else m);
          (cs, m'') = sample_conditions m' es a
      in (Equal (Column k (Some a)) (BindParameter name) # cs, m''))"

definition sample_createWhere ::
  "valuesParamsMap \<Rightarrow> (string \<times> jsval) list option \<Rightarrow> string \<Rightarrow> Expr option \<times> valuesParamsMap" where
  "sample_createWhere m w a =
     (case w of
        None \<Rightarrow> (None, m)
      | Some es \<Rightarrow>
          (case sample_conditions m es a of
             ([], m') \<Rightarrow> (None, m')
           | (c # cs, m') \<Rightarrow> (Some (foldl And c cs), m')))"

fun sample_print_column :: "ResultColumn \<Rightarrow> string" where
  "sample_print_column (ResultColumnExpr e a) = a"
| "sample_print_column (ResultColumnTableStar t) = t @ ''.*''"

definition sample_printNode :: "SelectStmt \<Rightarrow> string" where
  "sample_printNode s = ''SELECT '' @ concat (map (\<lambda>c. sample_print_column c @ '' '') (resultColumns s))"

definition sample_env :: "unit env" where
  "sample_env =
     \<lparr>createWhere = sample_createWhere,
      paramsFromMap = (\<lambda>m. if m = [] then None else Some (map (\<lambda>(v, n). (n, v)) m)),
      printNode = sample_printNode,
      dedupe = (\<lambda>xs. rev (remdups (rev xs))),
      arrayEqual = (\<lambda>a b. a = b),
      parseColumn = (\<lambda>c v. Inr v)\<rparr>"

definition users_where_obj :: "(unit, unit) DatabaseTableQuery" where
  "users_where_obj = \<lparr>getDb = (), preparedStatement = None, resolved = None,
     PRIV = Internal sample_schema ''users'' (Some [''name'']) (Some [(''name'', VStr ''John'')])
              (Some (Some 10, None)) None None\<rparr>"

definition users_obj :: "(unit, unit) DatabaseTableQuery" where
  "users_obj = \<lparr>getDb = (), preparedStatement = None, resolved = None,
     PRIV = Internal sample_schema ''users'' None None None None None\<rparr>"

definition users_tasks_obj :: "(unit, unit) DatabaseTableQuery" where
  "users_tasks_obj = \<lparr>getDb = (), preparedStatement = None, resolved = None,
     PRIV = Internal sample_schema ''joinUsersTasks'' (Some [''task_id'']) None None None
       (Some (QueryParent KMany ''id'' ''user_id'' (Internal sample_schema ''users'' (Some [''id'', ''name'']) None None None None)))\<rparr>"
definition users_tasks_rows :: "row list" where
  "users_tasks_rows = [
    [(''_0.task_id'', VNum 1), (''_0.user_id'', VNum 1), (''_1.id'', VNum 1), (''_1.name'', VStr ''John'')],
    [(''_0.task_id'', VNum 2), (''_0.user_id'', VNum 1), (''_1.id'', VNum 1), (''_1.name'', VStr ''John'')],
    [(''_0.task_id'', VNum 3), (''_0.user_id'', VNum 2), (''_1.id'', VNum 2), (''_1.name'', VStr ''Jane'')],
    [(''_0.task_id'', VNum 1), (''_0.user_id'', VNum 3), (''_1.id'', VNum 3), (''_1.name'', VStr ''Jack'')],
    [(''_0.task_id'', VNull), (''_0.user_id'', VNull), (''_1.id'', VNum 4), (''_1.name'', VStr ''Jill'')]]"

definition sample_store :: "(unit, unit) store" where
  "sample_store = fst (create [] () sample_schema ''users'')"

text \<open>What \<^verbatim>\<open>getResolved\<close> makes of \<open>users_tasks_obj\<close>, and the same join with kind
  \<^verbatim>\<open>one\<close> (\<^verbatim>\<open>pipeOne\<close>).\<close>

definition users_rq :: ResolvedQuery where
  "users_rq =
     \<lparr>table = ''users'', tableAlias = ''_1'', limit = None, offset = None,
      columns = Some [''id'', ''name''], joinColumns = [''id''], primaryColumns = [''id''],
      where_r = None, orderBy = None\<rparr>"

definition tasks_rq :: ResolvedQuery where
  "tasks_rq =
     \<lparr>table = ''joinUsersTasks'', tableAlias = ''_0'', limit = None, offset = None,
      columns = Some [''task_id''], joinColumns = [''user_id''],
      primaryColumns = [''user_id'', ''task_id''], where_r = None, orderBy = None\<rparr>"

definition tasks_join :: "PipeKind \<Rightarrow> ResolvedJoinItem" where
  "tasks_join k =
     \<lparr>query = tasks_rq, join = \<lparr>kind = k, currentCol = ''id'', joinCol = ''user_id''\<rparr>\<rparr>"


section \<open>The emitter of the specification: data model, CTE decision, printer\<close>

text \<open>
  \<^verbatim>\<open>DatabaseTableQuery.ts\<close>, the one source file, is a version of the library that has
  neither derived queries nor \<^verbatim>\<open>WITH\<close> nor externals; the tests under
  \<^verbatim>\<open>tests/readme.test.ts\<close> and \<^verbatim>\<open>unnamed/part_000\<close> exercise a later version, whose
  query builder and emitter are not among the sources. This section models that emitter from
  sections 3, 4.1, 4.4, 4.5 and 4.6 of the specification, and takes from the tests the statements
  they expect.
\<close>

text \<open>Modelled from the spec: the standard codecs of 3 (ValueCodec). The code that has them
  is not under src/.\<close>

datatype codec = TextCodec | IntegerCodec | RealCodec | BooleanCodec | DateCodec | JsonCodec

text \<open>Modelled from the spec: the operators of \<^verbatim>\<open>BinOp\<close> (3, Expr).\<close>

datatype binop = OpEq | OpNeq | OpLt | OpLe | OpGt | OpGe | OpAdd | OpSub | OpMul | OpDiv | OpMod
  | OpAnd | OpOr | OpConcat

text \<open>Modelled from the spec: the operators of \<^verbatim>\<open>UnaryOp\<close> (3, Expr).\<close>

datatype unop = OpNot | OpIsNull | OpIsNotNull | OpNeg

text \<open>Modelled from the spec: the functions of \<^verbatim>\<open>Aggregate\<close> (3,
  Expr).\<close>

datatype aggfn = AggCount | AggSum | AggAvg | AggMin | AggMax | AggGroupConcat

text \<open>Modelled from the spec: the two kinds of join of the builder,
  \<^verbatim>\<open>innerJoin\<close> and \<^verbatim>\<open>leftJoin\<close>.\<close>

datatype joinkind = InnerJoin | LeftJoin

text \<open>Modelled from the spec: the expressions and the query record of 3 (Expr, Query), which
  are mutually recursive through the subquery predicates, the derived source and the joins. The
  query builder that makes these values is not under src/. A query carries the id that the
  generator handed out when it was built (\<^verbatim>\<open>ident\<close>); its CTE name is made
  from it (4.6 step 1: every derived query is assigned \<^verbatim>\<open>cte_<freshId>\<close>),
  and it is the key of the identity-keyed collection. A join carries the alias
  \<^verbatim>\<open>t_<id>\<close> that its columns are written with; an external carries its
  codec, its optional label and its value.\<close>

datatype expr =
    ColumnE string string
  | LiteralE codec jsval
  | ExternalE codec "string option" jsval
  | BinOpE binop expr expr
  | UnaryOpE unop expr
  | InListE expr "expr list"
  | InSubqueryE expr query
  | NotInSubqueryE expr query
  | AggregateE aggfn expr bool
  | JsonObjectE "(string \<times> expr) list"
  | JsonGroupArrayE expr
  | CaseE "(expr \<times> expr) list" "expr option"
  | RawE string
and query =
  Query
    (ident: nat)
    (q_source: qsource)
    (q_joins: "qjoin list")
    (q_where: "expr option")
    (q_groupBy: "expr list option")
    (q_having: "expr option")
    (q_orderBy: "(expr \<times> OrderDirection) list option")
    (q_limit: "expr option")
    (q_offset: "expr option")
    (q_selection: selection)
and qsource =
    BaseTable string
  | DerivedQuery query bool string
and qjoin =
  JoinWith joinkind query string expr
and selection =
    Star
  | Explicit "(string \<times> expr \<times> codec) list"

text \<open>Modelled from the spec: the three places where a query refers to another query: as its
  source (with the \<^verbatim>\<open>promoted\<close> flag of
  \<^verbatim>\<open>queryFrom\<close>), as a join, and under
  \<^verbatim>\<open>inSubquery\<close> or \<^verbatim>\<open>notInSubquery\<close>.\<close>

datatype place = FromSource bool | JoinSubquery | InSubqueryPredicate | NotInSubqueryPredicate

text \<open>Modelled from the spec: an absent clause has nothing in it (helper of the traversals
  below).\<close>

definition flat :: "'a list option \<Rightarrow> 'a list" where
  "flat x = (case x of None \<Rightarrow> [] | Some xs \<Rightarrow> xs)"

text \<open>Modelled from the spec: step 1 of 4.6 (Collect), the traversal of the root query. It
  lists every reference to a query with the place it stands in, in the order of the emitted text
  (projection, source, joins, where, group by, having, order by, limit, offset), what a referenced
  query refers to itself before the reference.\<close>

primrec sites_e :: "expr \<Rightarrow> (place \<times> query) list"
  and sites_q :: "query \<Rightarrow> (place \<times> query) list"
  and sites_src :: "qsource \<Rightarrow> (place \<times> query) list"
  and sites_j :: "qjoin \<Rightarrow> (place \<times> query) list"
  and sites_sel :: "selection \<Rightarrow> (place \<times> query) list" where
  "sites_e (ColumnE t c) = []"
| "sites_e (LiteralE c v) = []"
| "sites_e (ExternalE c l v) = []"
| "sites_e (BinOpE op a b) = sites_e a @ sites_e b"
| "sites_e (UnaryOpE op a) = sites_e a"
| "sites_e (InListE a es) = sites_e a @ concat (map sites_e es)"
| "sites_e (InSubqueryE a q) = sites_e a @ sites_q q @ [(InSubqueryPredicate, q)]"
| "sites_e (NotInSubqueryE a q) = sites_e a @ sites_q q @ [(NotInSubqueryPredicate, q)]"
| "sites_e (AggregateE f a d) = sites_e a"
| "sites_e (JsonObjectE kvs) = concat (map snd (map (map_prod id sites_e) kvs))"
| "sites_e (JsonGroupArrayE a) = sites_e a"
| "sites_e (CaseE ws el) =
     concat (map (\<lambda>(c, v). c @ v) (map (map_prod sites_e sites_e) ws)) @ flat (map_option sites_e el)"
| "sites_e (RawE s) = []"
| "sites_q (Query i src js wh gb hv ob lim off sel) =
     sites_sel sel @ sites_src src @ concat (map sites_j js) @ flat (map_option sites_e wh)
     @ concat (flat (map_option (map sites_e) gb)) @ flat (map_option sites_e hv)
     @ concat (map fst (flat (map_option (map (map_prod sites_e id)) ob)))
     @ flat (map_option sites_e lim) @ flat (map_option sites_e off)"
| "sites_src (BaseTable t) = []"
| "sites_src (DerivedQuery q promoted a) = sites_q q @ [(FromSource promoted, q)]"
| "sites_j (JoinWith k q a on) = (sites_q q @ [(JoinSubquery, q)]) @ sites_e on"
| "sites_sel Star = []"
| "sites_sel (Explicit ps) = concat (map (\<lambda>(a, s, c). s) (map (map_prod id (map_prod sites_e id)) ps))"

text \<open>Modelled from the spec: a query over a base table with no clause and no selection of
  its own has nothing to emit but its table. 4.6 step 1 counts it with the physical table
  occurrences, not with the derived queries, and the tests of the repository expect a joined
  \<^verbatim>\<open>tasks.query()\<close> as
  \<^verbatim>\<open>INNER JOIN tasks AS t_id0\<close>.\<close>

definition is_scan :: "query \<Rightarrow> bool" where
  "is_scan q =
     (case q_source q of
        BaseTable t \<Rightarrow>
          q_joins q = [] \<and> q_where q = None \<and> q_groupBy q = None \<and> q_having q = None \<and>
          q_orderBy q = None \<and> q_limit q = None \<and> q_offset q = None \<and> q_selection q = Star
      | DerivedQuery d p a \<Rightarrow> False)"


text \<open>Modelled from the spec: the same places as the rule of 4.6 step 2 names, and the join,
  which the spec does not name but the repository's test does:
  \<^verbatim>\<open>Find all user with their linked tasks\<close>
  (\<^verbatim>\<open>part_000\<close>, lines 187 to 222) joins
  \<^verbatim>\<open>tasksByUserId\<close> once and expects
  \<^verbatim>\<open>WITH cte_id3 AS (...)\<close> and
  \<^verbatim>\<open>LEFT JOIN cte_id3 AS t_id4\<close>.\<close>

fun promoting_place :: "place \<Rightarrow> bool" where
  "promoting_place (FromSource promoted) = promoted"
| "promoting_place JoinSubquery = True"
| "promoting_place InSubqueryPredicate = True"
| "promoting_place NotInSubqueryPredicate = True"

text \<open>Modelled from the spec: the references to derived queries (4.6 step 1).\<close>

definition derived_sites :: "query \<Rightarrow> (place \<times> query) list" where
  "derived_sites root = filter (\<lambda>(pl, d). \<not> is_scan d) (sites_q root)"

text \<open>Modelled from the spec: the reference count of step 1, keyed by the identity of the
  query.\<close>

definition refcount :: "query \<Rightarrow> nat \<Rightarrow> nat" where
  "refcount root i = length (filter (\<lambda>(pl, d). ident d = i) (derived_sites root))"

text \<open>Modelled from the spec:
  \<^verbatim>\<open>accumulating each distinct derived Query value (identity-keyed)\<close>: the
  first occurrence of each id, in order.\<close>

primrec distinct_by_ident :: "nat list \<Rightarrow> query list \<Rightarrow> query list" where
  "distinct_by_ident seen [] = []"
| "distinct_by_ident seen (d # ds) =
     (if ident d \<in> set seen then distinct_by_ident seen ds
      else d # distinct_by_ident (ident d # seen) ds)"

text \<open>Modelled from the spec: 4.6 step 1, the list of the distinct derived queries, each
  with its reference count.\<close>

definition collect :: "query \<Rightarrow> (query \<times> nat) list" where
  "collect root =
     map (\<lambda>d. (d, refcount root (ident d))) (distinct_by_ident [] (map snd (derived_sites root)))"

text \<open>Modelled from the spec: 4.6 step 2 (Decide CTE vs inline) for the query with id
  \<^verbatim>\<open>i\<close>: referenced twice or more, or referenced from a promoting place.
  The places are a parameter, so that the rule in the spec's words and the rule with the join can
  be compared.\<close>

definition becomes_cte :: "(place \<Rightarrow> bool) \<Rightarrow> query \<Rightarrow> nat \<Rightarrow> bool" where
  "becomes_cte pp root i =
     (2 \<le> refcount root i \<or> list_ex (\<lambda>(pl, d). ident d = i \<and> pp pl) (derived_sites root))"

text \<open>Modelled from the spec: 4.6 step 3, the queries emitted under
  \<^verbatim>\<open>WITH\<close>, a query after the queries it refers to (the collection lists
  them so).\<close>

definition ctes :: "(place \<Rightarrow> bool) \<Rightarrow> query \<Rightarrow> query list" where
  "ctes pp root = map fst (filter (\<lambda>(d, n). becomes_cte pp root (ident d)) (collect root))"

text \<open>Modelled from the spec: the three ways a reference is written: the table name, the CTE
  name, the parenthesised select.\<close>

datatype rendering = ByTable | ByName | Inline

text \<open>Modelled from the spec: how a reference to \<^verbatim>\<open>d\<close> is written,
  given which ids are CTEs (4.6 step 2, \<^verbatim>\<open>Otherwise inline it\<close>).\<close>

definition render :: "(nat \<Rightarrow> bool) \<Rightarrow> query \<Rightarrow> rendering" where
  "render H d = (if is_scan d then ByTable else if H (ident d) then ByName else Inline)"

text \<open>Modelled from the spec: the ids of the derived queries that the emission of an
  expression, a query, a source, a join or a selection writes out inline, one entry for each time
  it does. It follows the printer below clause by clause: a reference by name or by table writes
  nothing of the referenced query.\<close>

primrec inlined_e :: "(nat \<Rightarrow> bool) \<Rightarrow> expr \<Rightarrow> nat list"
  and inlined_q :: "(nat \<Rightarrow> bool) \<Rightarrow> query \<Rightarrow> nat list"
  and inlined_src :: "(nat \<Rightarrow> bool) \<Rightarrow> qsource \<Rightarrow> nat list"
  and inlined_j :: "(nat \<Rightarrow> bool) \<Rightarrow> qjoin \<Rightarrow> nat list"
  and inlined_sel :: "(nat \<Rightarrow> bool) \<Rightarrow> selection \<Rightarrow> nat list" where
  "inlined_e H (ColumnE t c) = []"
| "inlined_e H (LiteralE c v) = []"
| "inlined_e H (ExternalE c l v) = []"
| "inlined_e H (BinOpE op a b) = inlined_e H a @ inlined_e H b"
| "inlined_e H (UnaryOpE op a) = inlined_e H a"
| "inlined_e H (InListE a es) = inlined_e H a @ concat (map (inlined_e H) es)"
| "inlined_e H (InSubqueryE a q) =
     inlined_e H a @ (if render H q = Inline then inlined_q H q @ [ident q] else [])"
| "inlined_e H (NotInSubqueryE a q) =
     inlined_e H a @ (if render H q = Inline then inlined_q H q @ [ident q] else [])"
| "inlined_e H (AggregateE f a d) = inlined_e H a"
| "inlined_e H (JsonObjectE kvs) = concat (map snd (map (map_prod id (inlined_e H)) kvs))"
| "inlined_e H (JsonGroupArrayE a) = inlined_e H a"
| "inlined_e H (CaseE ws el) =
     concat (map (\<lambda>(c, v). c @ v) (map (map_prod (inlined_e H) (inlined_e H)) ws))
     @ flat (map_option (inlined_e H) el)"
| "inlined_e H (RawE s) = []"
| "inlined_q H (Query i src js wh gb hv ob lim off sel) =
     inlined_sel H sel @ inlined_src H src @ concat (map (inlined_j H) js)
     @ flat (map_option (inlined_e H) wh)
     @ concat (flat (map_option (map (inlined_e H)) gb)) @ flat (map_option (inlined_e H) hv)
     @ concat (map fst (flat (map_option (map (map_prod (inlined_e H) id)) ob)))
     @ flat (map_option (inlined_e H) lim) @ flat (map_option (inlined_e H) off)"
| "inlined_src H (BaseTable t) = []"
| "inlined_src H (DerivedQuery q promoted a) =
     (if render H q = Inline then inlined_q H q @ [ident q] else [])"
| "inlined_j H (JoinWith k q a on) =
     (if render H q = Inline then inlined_q H q @ [ident q] else []) @ inlined_e H on"
| "inlined_sel H Star = []"
| "inlined_sel H (Explicit ps) =
     concat (map (\<lambda>(a, s, c). s) (map (map_prod id (map_prod (inlined_e H) id)) ps))"

text \<open>Modelled from the spec: the number of references to the derived query
  \<^verbatim>\<open>i\<close> in a list of sites (a measure for the proofs about step 2).\<close>

definition site_refs :: "nat \<Rightarrow> (place \<times> query) list \<Rightarrow> nat" where
  "site_refs i L = length (filter (\<lambda>(pl, d). \<not> is_scan d \<and> ident d = i) L)"

text \<open>Modelled from the spec: the number of times \<^verbatim>\<open>i\<close> is written
  inline inside the CTEs that a list of sites refers to (a measure for the proofs about step 2).\<close>

definition nested_inlines :: "(nat \<Rightarrow> bool) \<Rightarrow> nat \<Rightarrow> (place \<times> query) list \<Rightarrow> nat" where
  "nested_inlines H i L = sum_list (map (\<lambda>(pl, d). count_list (inlined_q H d) i)
                 (filter (\<lambda>(pl, d). \<not> is_scan d \<and> H (ident d)) L))"

text \<open>Modelled from the spec: every reference to \<^verbatim>\<open>i\<close> in the sites
  is accounted for, by an inline emission in the text itself or by one inside a CTE the text
  refers to.\<close>

definition balanced :: "(nat \<Rightarrow> bool) \<Rightarrow> nat \<Rightarrow> (place \<times> query) list \<Rightarrow> nat list \<Rightarrow> bool" where
  "balanced H i L N = (site_refs i L = count_list N i + nested_inlines H i L)"




text \<open>Modelled from the spec: none of the ids in the list is a CTE.\<close>

definition unhoisted_only :: "(nat \<Rightarrow> bool) \<Rightarrow> nat list \<Rightarrow> bool" where
  "unhoisted_only H N = (\<forall>j\<in>set N. \<not> H j)"

subsection \<open>The printer\<close>

text \<open>Modelled from the spec: what the emitter takes from outside, the token source of the
  id generator (3, IdGen: \<^verbatim>\<open>pluggable\<close>) and
  \<^verbatim>\<open>serialize\<close> of the codecs (3, ValueCodec).\<close>

record emit_env =
  token :: "nat \<Rightarrow> string"
  serialize :: "codec \<Rightarrow> jsval \<Rightarrow> jsval"

text \<open>Modelled from the spec: the state of an emission, the counter of the id generator and
  the ordered map of the parameters (4.6 step 6:
  \<^verbatim>\<open>insertion order = first-use order\<close>).\<close>

record emit_state =
  next_id :: nat
  bindings :: "(string \<times> jsval) list"

text \<open>Modelled from the spec: a step of the emission, from the state to a result and the
  state after it.\<close>

type_synonym 'a emitter = "emit_state \<Rightarrow> 'a \<times> emit_state"

text \<open>Modelled from the spec: a step that leaves the state alone.\<close>

definition returnE :: "'a \<Rightarrow> 'a emitter" where
  "returnE x s = (x, s)"

text \<open>Modelled from the spec: one step after another.\<close>

definition bindE :: "'a emitter \<Rightarrow> ('a \<Rightarrow> 'b emitter) \<Rightarrow> 'b emitter" where
  "bindE m f s = (case m s of (x, s1) \<Rightarrow> f x s1)"

text \<open>Modelled from the spec: the steps of a list, left to right.\<close>

primrec seqE :: "'a emitter list \<Rightarrow> 'a list emitter" where
  "seqE [] s = ([], s)"
| "seqE (m # ms) s = (case m s of (x, s1) \<Rightarrow> (case seqE ms s1 of (xs, s2) \<Rightarrow> (x # xs, s2)))"

text \<open>Modelled from the spec: the step of an optional clause.\<close>

definition optE :: "'a emitter option \<Rightarrow> 'a option emitter" where
  "optE w s = (case w of None \<Rightarrow> (None, s) | Some m \<Rightarrow> (case m s of (x, s1) \<Rightarrow> (Some x, s1)))"

text \<open>Modelled from the spec: 4.1, \<^verbatim>\<open>freshId(prefix)\<close> returns
  \<^verbatim>\<open>{prefix}_{token}\<close> and moves the counter.\<close>

definition freshId :: "emit_env \<Rightarrow> string \<Rightarrow> string emitter" where
  "freshId E prefix s = (prefix @ ''_'' @ token E (next_id s), s\<lparr>next_id := Suc (next_id s)\<rparr>)"

text \<open>Modelled from the spec: 4.4 (Externals), the name
  \<^verbatim>\<open>_<freshId>\<close> of an external without a usable label, bound to the
  serialized value at the end of the parameter map.\<close>

definition bindFresh :: "emit_env \<Rightarrow> jsval \<Rightarrow> string emitter" where
  "bindFresh E sv s =
     (case freshId E [] s of (n, s1) \<Rightarrow> (n, s1\<lparr>bindings := bindings s1 @ [(n, sv)]\<rparr>))"

text \<open>Modelled from the spec: 4.4 (Externals),
  \<^verbatim>\<open>:label if provided and unique; otherwise :_<freshId>\<close>, and
  \<^verbatim>\<open>two syntactically identical externals with the same explicit label share a parameter slot; two anonymous externals do not\<close>.
  A label is taken when it is free; it is shared when it is bound to the same serialized value;
  when it is bound to another value it is not unique and the external gets a generated name.\<close>

definition bindParam :: "emit_env \<Rightarrow> codec \<Rightarrow> string option \<Rightarrow> jsval \<Rightarrow> string emitter" where
  "bindParam E c l v s =
     (let sv = serialize E c v in
      case l of
        None \<Rightarrow> bindFresh E sv s
      | Some lab \<Rightarrow>
          (case map_of (bindings s) lab of
             None \<Rightarrow> (lab, s\<lparr>bindings := bindings s @ [(lab, sv)]\<rparr>)
           | Some old \<Rightarrow> if old = sv then (lab, s) else bindFresh E sv s))"

text \<open>Modelled from the spec: a list of texts with a separator between them.\<close>

definition sep :: "string \<Rightarrow> string list \<Rightarrow> string" where
  "sep d xs = (case xs of [] \<Rightarrow> [] | y # ys \<Rightarrow> y @ concat (map (\<lambda>x. d @ x) ys))"

text \<open>Modelled from the spec: 4.6 (SQL text conventions), the characters of a bare
  identifier: digits, letters, the underscore.\<close>

definition is_ident_char :: "char \<Rightarrow> bool" where
  "is_ident_char c =
     (let n = (of_char c :: nat) in
      (48 \<le> n \<and> n \<le> 57) \<or> (65 \<le> n \<and> n \<le> 90) \<or> (97 \<le> n \<and> n \<le> 122) \<or> n = 95)"

text \<open>Modelled from the spec: 4.6,
  \<^verbatim>\<open>identifiers emitted bare unless they contain non-identifier characters, in which case they are double-quoted\<close>.\<close>

definition sql_ident :: "string \<Rightarrow> string" where
  "sql_ident x = (if list_all is_ident_char x then x else [CHR 0x22] @ x @ [CHR 0x22])"

text \<open>Modelled from the spec: 4.6,
  \<^verbatim>\<open>strings single-quoted with '' escaping\<close>.\<close>

definition sql_string :: "string \<Rightarrow> string" where
  "sql_string x =
     [CHR 0x27] @ concat (map (\<lambda>c. if c = CHR 0x27 then [c, c] else [c]) x) @ [CHR 0x27]"

text \<open>Modelled from the spec: 4.6, \<^verbatim>\<open>integers bare\<close>.\<close>

definition string_of_int :: "int \<Rightarrow> string" where
  "string_of_int n = (if n < 0 then ''-'' @ string_of_nat (nat (- n)) else string_of_nat (nat n))"

text \<open>Modelled from the spec: 4.6, the text of a literal after its codec serialized it: a
  string quoted, a number bare, a boolean as 1 or 0, anything else
  \<^verbatim>\<open>NULL\<close>.\<close>

definition literal_sql :: "jsval \<Rightarrow> string" where
  "literal_sql v =
     (case v of
        VStr x \<Rightarrow> sql_string x
      | VNum n \<Rightarrow> string_of_int n
      | VBool b \<Rightarrow> (if b then ''1'' else ''0'')
      | _ \<Rightarrow> ''NULL'')"

text \<open>Modelled from the spec: the operators as 3 writes them; equality is
  \<^verbatim>\<open>==\<close> (4.6, Equality operator).\<close>

fun binop_sql :: "binop \<Rightarrow> string" where
  "binop_sql OpEq = ''==''"
| "binop_sql OpNeq = ''!=''"
| "binop_sql OpLt = ''<''"
| "binop_sql OpLe = ''<=''"
| "binop_sql OpGt = ''>''"
| "binop_sql OpGe = ''>=''"
| "binop_sql OpAdd = ''+''"
| "binop_sql OpSub = ''-''"
| "binop_sql OpMul = ''*''"
| "binop_sql OpDiv = ''/''"
| "binop_sql OpMod = ''%''"
| "binop_sql OpAnd = ''AND''"
| "binop_sql OpOr = ''OR''"
| "binop_sql OpConcat = ''||''"

text \<open>Modelled from the spec: the unary operators of 3, \<^verbatim>\<open>IS NULL\<close>
  and \<^verbatim>\<open>IS NOT NULL\<close> after their operand.\<close>

fun unop_sql :: "unop \<Rightarrow> string \<Rightarrow> string" where
  "unop_sql OpNot x = ''NOT '' @ x"
| "unop_sql OpIsNull x = x @ '' IS NULL''"
| "unop_sql OpIsNotNull x = x @ '' IS NOT NULL''"
| "unop_sql OpNeg x = ''-'' @ x"

text \<open>Modelled from the spec: the aggregate functions of 3.\<close>

fun aggfn_sql :: "aggfn \<Rightarrow> string" where
  "aggfn_sql AggCount = ''count''"
| "aggfn_sql AggSum = ''sum''"
| "aggfn_sql AggAvg = ''avg''"
| "aggfn_sql AggMin = ''min''"
| "aggfn_sql AggMax = ''max''"
| "aggfn_sql AggGroupConcat = ''group_concat''"

text \<open>Modelled from the spec: the keyword of a join.\<close>

fun joinkind_sql :: "joinkind \<Rightarrow> string" where
  "joinkind_sql InnerJoin = '' INNER JOIN ''"
| "joinkind_sql LeftJoin = '' LEFT JOIN ''"

text \<open>Modelled from the spec: the direction of an ordering term.\<close>

fun direction_sql :: "OrderDirection \<Rightarrow> string" where
  "direction_sql Asc = '' ASC''"
| "direction_sql Desc = '' DESC''"

text \<open>Modelled from the spec: the table of a query that is a bare table.\<close>

definition table_of :: "query \<Rightarrow> string" where
  "table_of q = (case q_source q of BaseTable t \<Rightarrow> sql_ident t | DerivedQuery d p a \<Rightarrow> [])"

text \<open>Modelled from the spec: 4.6 step 1, \<^verbatim>\<open>cte_<freshId>\<close>, with the
  id that the query carries.\<close>

definition cte_name :: "emit_env \<Rightarrow> query \<Rightarrow> string" where
  "cte_name E q = ''cte_'' @ token E (ident q)"

text \<open>Modelled from the spec: a reference to a query in a join or a subquery predicate: the
  table, the CTE name, or the parenthesised select of the query (4.6 step 2).\<close>

definition subquery_ref :: "emit_env \<Rightarrow> (nat \<Rightarrow> bool) \<Rightarrow> query \<Rightarrow> string emitter \<Rightarrow> string emitter" where
  "subquery_ref E H q body =
     (case render H q of
        ByTable \<Rightarrow> returnE (table_of q)
      | ByName \<Rightarrow> returnE (cte_name E q)
      | Inline \<Rightarrow> bindE body (\<lambda>b. returnE (''('' @ b @ '')'')))"

text \<open>Modelled from the spec: 4.6 step 5, what \<^verbatim>\<open>*\<close> is qualified
  with: the table, the CTE or the alias of the source.\<close>

definition source_name :: "emit_env \<Rightarrow> (nat \<Rightarrow> bool) \<Rightarrow> qsource \<Rightarrow> string" where
  "source_name E H src =
     (case src of
        BaseTable t \<Rightarrow> sql_ident t
      | DerivedQuery q p a \<Rightarrow>
          (case render H q of ByTable \<Rightarrow> table_of q | ByName \<Rightarrow> cte_name E q | Inline \<Rightarrow> sql_ident a))"

text \<open>Modelled from the spec: an optional clause with its keyword.\<close>

definition clause :: "string \<Rightarrow> string option \<Rightarrow> string" where
  "clause kw x = (case x of None \<Rightarrow> [] | Some y \<Rightarrow> kw @ y)"

text \<open>Modelled from the spec: 4.6 step 4, the clauses in the order select, from, joins,
  where, group by, having, order by, limit, offset, each but the first two optional,
  single-spaced.\<close>

definition select_text ::
  "string \<Rightarrow> string list option \<Rightarrow> string \<Rightarrow> string list \<Rightarrow> string option \<Rightarrow> string list option \<Rightarrow>
   string option \<Rightarrow> string list option \<Rightarrow> string option \<Rightarrow> string option \<Rightarrow> string" where
  "select_text star proj src joins w g h ob lim off =
     ''SELECT '' @ (case proj of None \<Rightarrow> star @ ''.*'' | Some items \<Rightarrow> sep '', '' items)
     @ '' FROM '' @ src @ concat joins
     @ clause '' WHERE '' w
     @ clause '' GROUP BY '' (map_option (sep '', '') g)
     @ clause '' HAVING '' h
     @ clause '' ORDER BY '' (map_option (sep '', '') ob)
     @ clause '' LIMIT '' lim
     @ clause '' OFFSET '' off"

text \<open>Modelled from the spec: 4.6 steps 4 to 6, the printer. It threads the emission state,
  which only an external changes; a reference to another query is written as step 2 decided. The
  spec gives no rule for parentheses around operands, so none are written.\<close>

primrec print_e :: "emit_env \<Rightarrow> (nat \<Rightarrow> bool) \<Rightarrow> expr \<Rightarrow> string emitter"
  and print_q :: "emit_env \<Rightarrow> (nat \<Rightarrow> bool) \<Rightarrow> query \<Rightarrow> string emitter"
  and print_src :: "emit_env \<Rightarrow> (nat \<Rightarrow> bool) \<Rightarrow> qsource \<Rightarrow> string emitter"
  and print_j :: "emit_env \<Rightarrow> (nat \<Rightarrow> bool) \<Rightarrow> qjoin \<Rightarrow> string emitter"
  and print_sel :: "emit_env \<Rightarrow> (nat \<Rightarrow> bool) \<Rightarrow> selection \<Rightarrow> string list option emitter" where
  "print_e E H (ColumnE t c) = returnE (sql_ident t @ ''.'' @ sql_ident c)"
| "print_e E H (LiteralE c v) = returnE (literal_sql (serialize E c v))"
| "print_e E H (ExternalE c l v) = bindE (bindParam E c l v) (\<lambda>n. returnE ('':'' @ n))"
| "print_e E H (BinOpE op a b) =
     bindE (print_e E H a) (\<lambda>x. bindE (print_e E H b) (\<lambda>y.
       returnE (x @ '' '' @ binop_sql op @ '' '' @ y)))"
| "print_e E H (UnaryOpE op a) = bindE (print_e E H a) (\<lambda>x. returnE (unop_sql op x))"
| "print_e E H (InListE a es) =
     bindE (print_e E H a) (\<lambda>x. bindE (seqE (map (print_e E H) es)) (\<lambda>ys.
       returnE (x @ '' IN ('' @ sep '', '' ys @ '')'')))"
| "print_e E H (InSubqueryE a q) =
     bindE (print_e E H a) (\<lambda>x. bindE (subquery_ref E H q (print_q E H q)) (\<lambda>r.
       returnE (x @ '' IN '' @ r)))"
| "print_e E H (NotInSubqueryE a q) =
     bindE (print_e E H a) (\<lambda>x. bindE (subquery_ref E H q (print_q E H q)) (\<lambda>r.
       returnE (x @ '' NOT IN '' @ r)))"
| "print_e E H (AggregateE f a d) =
     bindE (print_e E H a) (\<lambda>x.
       returnE (aggfn_sql f @ ''('' @ (if d then ''DISTINCT '' else []) @ x @ '')''))"
| "print_e E H (JsonObjectE kvs) =
     bindE (seqE (map (\<lambda>(k, m). bindE m (\<lambda>x. returnE (sql_string k @ '', '' @ x)))
                   (map (map_prod id (print_e E H)) kvs)))
       (\<lambda>xs. returnE (''json_object('' @ sep '', '' xs @ '')''))"
| "print_e E H (JsonGroupArrayE a) =
     bindE (print_e E H a) (\<lambda>x. returnE (''json_group_array('' @ x @ '')''))"
| "print_e E H (CaseE ws el) =
     bindE (seqE (map (\<lambda>(mc, mv). bindE mc (\<lambda>c. bindE mv (\<lambda>v.
                     returnE ('' WHEN '' @ c @ '' THEN '' @ v))))
                   (map (map_prod (print_e E H) (print_e E H)) ws)))
       (\<lambda>xs. bindE (optE (map_option (print_e E H) el)) (\<lambda>e.
          returnE (''CASE'' @ concat xs @ clause '' ELSE '' e @ '' END'')))"
| "print_e E H (RawE x) = returnE x"
| "print_q E H (Query i src js wh gb hv ob lim off sel) =
     bindE (print_sel E H sel) (\<lambda>proj.
     bindE (print_src E H src) (\<lambda>fr.
     bindE (seqE (map (print_j E H) js)) (\<lambda>joins.
     bindE (optE (map_option (print_e E H) wh)) (\<lambda>w.
     bindE (optE (map_option seqE (map_option (map (print_e E H)) gb))) (\<lambda>g.
     bindE (optE (map_option (print_e E H) hv)) (\<lambda>h.
     bindE (optE (map_option seqE
              (map_option (map (\<lambda>(m, dir). bindE m (\<lambda>x. returnE (x @ direction_sql dir))))
                 (map_option (map (map_prod (print_e E H) id)) ob)))) (\<lambda>ordering.
     bindE (optE (map_option (print_e E H) lim)) (\<lambda>l.
     bindE (optE (map_option (print_e E H) off)) (\<lambda>f.
       returnE (select_text (source_name E H src) proj fr joins w g h ordering l f))))))))))"
| "print_src E H (BaseTable t) = returnE (sql_ident t)"
| "print_src E H (DerivedQuery q promoted a) =
     (case render H q of
        ByTable \<Rightarrow> returnE (table_of q)
      | ByName \<Rightarrow> returnE (cte_name E q)
      | Inline \<Rightarrow> bindE (print_q E H q) (\<lambda>b. returnE (''('' @ b @ '') AS '' @ sql_ident a)))"
| "print_j E H (JoinWith k q a on) =
     bindE (subquery_ref E H q (print_q E H q)) (\<lambda>r. bindE (print_e E H on) (\<lambda>c.
       returnE (joinkind_sql k @ r @ '' AS '' @ sql_ident a @ '' ON '' @ c)))"
| "print_sel E H Star = returnE None"
| "print_sel E H (Explicit ps) =
     bindE (seqE (map (\<lambda>(a, m, c). bindE m (\<lambda>x. returnE (x @ '' AS '' @ sql_ident a)))
                   (map (map_prod id (map_prod (print_e E H) id)) ps)))
       (\<lambda>xs. returnE (Some xs))"

text \<open>Modelled from the spec: 4.6 step 3, the bodies of the CTEs in order, each printed once
  under its name, then the root select.\<close>

definition print_root :: "emit_env \<Rightarrow> (place \<Rightarrow> bool) \<Rightarrow> query \<Rightarrow> string emitter" where
  "print_root E pp root =
     bindE (seqE (map (\<lambda>d. bindE (print_q E (becomes_cte pp root) d) (\<lambda>b.
                     returnE (cte_name E d @ '' AS ('' @ b @ '')'')))
                   (ctes pp root))) (\<lambda>withs.
     bindE (print_q E (becomes_cte pp root) root) (\<lambda>body.
       returnE ((if withs = [] then [] else ''WITH '' @ sep '', '' withs @ '' '') @ body)))"

text \<open>Modelled from the spec: the emission of a root query from the generator state
  \<^verbatim>\<open>k0\<close>, with an empty parameter map: the text, the parameters and the
  generator state after it.\<close>

definition emit_statement ::
  "emit_env \<Rightarrow> (place \<Rightarrow> bool) \<Rightarrow> query \<Rightarrow> nat \<Rightarrow> string \<times> (string \<times> jsval) list \<times> nat" where
  "emit_statement E pp root k0 =
     (case print_root E pp root \<lparr>next_id = k0, bindings = []\<rparr> of
        (text, s) \<Rightarrow> (text, bindings s, next_id s))"

subsection \<open>The externals of a statement\<close>

text \<open>Modelled from the spec: an external as the emitter meets it, codec, optional label and
  value.\<close>

type_synonym external = "codec \<times> string option \<times> jsval"



text \<open>Modelled from the spec: the names that a list of externals is given, one after the
  other (4.5, Externals).\<close>

definition bind_all :: "emit_env \<Rightarrow> external list \<Rightarrow> string list emitter" where
  "bind_all E xs = seqE (map (\<lambda>(c, l, v). bindParam E c l v) xs)"






text \<open>Modelled from the spec: the \<^verbatim>\<open>sql\<close> of the returned Operation
  (6, Operation value).\<close>

definition emitted_sql :: "emit_env \<Rightarrow> (place \<Rightarrow> bool) \<Rightarrow> query \<Rightarrow> nat \<Rightarrow> string" where
  "emitted_sql E pp root k0 = fst (emit_statement E pp root k0)"




subsection \<open>The queries of the tests\<close>

text \<open>Modelled from the spec: the token source of the tests,
  \<^verbatim>\<open>Random.setCreateId(() => `id${nextRandomId++}`)\<close>
  (\<^verbatim>\<open>part_000\<close>, line 15; 3, IdGen: \<^verbatim>\<open>id0\<close>,
  \<^verbatim>\<open>id1\<close>, ...).\<close>

definition test_token :: "nat \<Rightarrow> string" where
  "test_token n = ''id'' @ string_of_nat n"

text \<open>Modelled from the spec: 3 (ValueCodec),
  \<^verbatim>\<open>boolean (stored as 0/1)\<close>; text and numbers are stored as they are.
  Dates and JSON values are taken as already written as text.\<close>

definition std_serialize :: "codec \<Rightarrow> jsval \<Rightarrow> jsval" where
  "std_serialize c v =
     (case c of
        BooleanCodec \<Rightarrow> (case v of VBool b \<Rightarrow> VNum (if b then 1 else 0) | _ \<Rightarrow> v)
      | _ \<Rightarrow> v)"

text \<open>Modelled from the spec: the emitter as the tests set it up.\<close>

definition test_env :: emit_env where
  "test_env = \<lparr>token = test_token, serialize = std_serialize\<rparr>"

text \<open>Modelled from the spec: \<^verbatim>\<open>table.query()\<close>, the query over a
  table with no clause. It draws no id in the tests; 0 stands for that.\<close>

definition scan :: "string \<Rightarrow> query" where
  "scan t = Query 0 (BaseTable t) [] None None None None None None Star"

text \<open>Modelled from the spec: the value of
  \<^verbatim>\<open>schema.tasks.query().limit(Expr.external(10))\<close>
  (\<^verbatim>\<open>readme.test.ts\<close>, lines 66 to 68) in the data model of 3. The external
  draws the fifth id of the test when the emission meets it.\<close>

definition tasks_limit :: query where
  "tasks_limit =
     Query 5 (BaseTable ''tasks'') [] None None None None
       (Some (ExternalE IntegerCodec None (VNum 10))) None Star"



text \<open>Modelled from the spec: the value of \<^verbatim>\<open>usersWithTasks\<close>
  (\<^verbatim>\<open>part_000\<close>, lines 364 to 367).\<close>

definition usersWithTasks :: query where
  "usersWithTasks =
     Query 1 (BaseTable ''joinUsersTasks'') [] None
       (Some [ColumnE ''joinUsersTasks'' ''user_id'']) None None None None
       (Explicit [(''id'', ColumnE ''joinUsersTasks'' ''user_id'', TextCodec)])"

text \<open>Modelled from the spec: the value of \<^verbatim>\<open>usersWithNoTasks\<close>
  (\<^verbatim>\<open>part_000\<close>, lines 369 to 372).\<close>

definition usersWithNoTasks :: query where
  "usersWithNoTasks =
     Query 2 (BaseTable ''users'') []
       (Some (NotInSubqueryE (ColumnE ''users'' ''id'') usersWithTasks))
       None None None None None Star"

text \<open>Modelled from the spec: the value of \<^verbatim>\<open>query1\<close>
  (\<^verbatim>\<open>readme.test.ts\<close>, lines 137 to 140).\<close>

definition query1 :: query where
  "query1 =
     Query 15 (BaseTable ''users'') [] None (Some [ColumnE ''users'' ''name'']) None None None None
       (Explicit [(''demo'', ColumnE ''users'' ''id'', TextCodec),
                  (''id'', ColumnE ''users'' ''id'', TextCodec)])"

text \<open>Modelled from the spec: the value of \<^verbatim>\<open>queryFrom(query1)\<close>
  (\<^verbatim>\<open>readme.test.ts\<close>, line 142).\<close>

definition withCte :: query where
  "withCte = Query 16 (DerivedQuery query1 True ''t_id16'') [] None None None None None None Star"

text \<open>Modelled from the spec: the value of \<^verbatim>\<open>subQuery\<close>
  (\<^verbatim>\<open>part_000\<close>, lines 292 to 301).\<close>

definition subQuery :: query where
  "subQuery =
     Query 3 (BaseTable ''joinUsersTasks'') []
       (Some (InListE (ColumnE ''joinUsersTasks'' ''task_id'')
                [LiteralE TextCodec (VStr ''1''), LiteralE TextCodec (VStr ''2'')]))
       (Some [ColumnE ''joinUsersTasks'' ''user_id''])
       (Some (BinOpE OpEq (AggregateE AggCount (ColumnE ''joinUsersTasks'' ''task_id'') False)
                (LiteralE IntegerCodec (VNum 2))))
       None None None
       (Explicit [(''id'', ColumnE ''joinUsersTasks'' ''user_id'', TextCodec)])"

text \<open>Modelled from the spec: the value of \<^verbatim>\<open>filteredUsers\<close>
  (\<^verbatim>\<open>part_000\<close>, lines 321 to 324).\<close>

definition filteredUsers :: query where
  "filteredUsers =
     Query 4 (BaseTable ''users'') []
       (Some (InSubqueryE (ColumnE ''users'' ''id'') subQuery))
       None None None None None Star"

text \<open>Modelled from the spec: the value of \<^verbatim>\<open>usersWithGroups\<close>
  (\<^verbatim>\<open>readme.test.ts\<close>, lines 114 to 125).\<close>

definition usersWithGroups :: query where
  "usersWithGroups =
     Query 13 (BaseTable ''users'')
       [JoinWith InnerJoin (scan ''groups'') ''t_id11''
          (BinOpE OpEq (ColumnE ''users'' ''groupId'') (ColumnE ''t_id11'' ''id''))]
       None None None None None None
       (Explicit [(''id'', ColumnE ''users'' ''id'', TextCodec),
                  (''name'', ColumnE ''users'' ''name'', TextCodec),
                  (''groupName'', ColumnE ''t_id11'' ''name'', TextCodec)])"

text \<open>The tests compare statements after formatting them
  (\<^verbatim>\<open>format(query.sql)\<close>), so the layout does not count: a text without its
  blanks.\<close>

definition unspaced :: "string \<Rightarrow> string" where
  "unspaced x = filter (\<lambda>c. c \<noteq> CHR '' '') x"


text \<open>The statement that the test expects of \<^verbatim>\<open>usersWithNoTasks\<close>
  (\<^verbatim>\<open>part_000\<close>, lines 374 to 390).\<close>

definition usersWithNoTasks_sql :: string where
  "usersWithNoTasks_sql =
     ''WITH cte_id1 AS ( SELECT joinUsersTasks.user_id AS id FROM joinUsersTasks GROUP BY joinUsersTasks.user_id ) SELECT users.* FROM users WHERE users.id NOT IN cte_id1''"

text \<open>The statement that the test expects of \<^verbatim>\<open>withCte\<close>
  (\<^verbatim>\<open>readme.test.ts\<close>, lines 145 to 153).\<close>

definition withCte_sql :: string where
  "withCte_sql =
     ''WITH cte_id15 AS ( SELECT users.id AS demo, users.id AS id FROM users GROUP BY users.name ) SELECT cte_id15.* FROM cte_id15''"

text \<open>The statement that the test expects of \<^verbatim>\<open>filteredUsers\<close>
  (\<^verbatim>\<open>part_000\<close>, lines 326 to 346).\<close>

definition filteredUsers_sql :: string where
  "filteredUsers_sql =
     ''WITH cte_id3 AS ( SELECT joinUsersTasks.user_id AS id FROM joinUsersTasks WHERE joinUsersTasks.task_id IN ('1', '2') GROUP BY joinUsersTasks.user_id HAVING count(joinUsersTasks.task_id) == 2 ) SELECT users.* FROM users WHERE users.id IN cte_id3''"

text \<open>The statement that the test expects of \<^verbatim>\<open>usersWithGroups\<close>
  (\<^verbatim>\<open>readme.test.ts\<close>, lines 127 to 133).\<close>

definition usersWithGroups_sql :: string where
  "usersWithGroups_sql =
     ''SELECT users.id AS id, users.name AS name, t_id11.name AS groupName FROM users INNER JOIN groups AS t_id11 ON users.groupId == t_id11.id''"



section \<open>Properties of the builder operations\<close>

lemma new_DatabaseTableQuery_frame:
  "new_DatabaseTableQuery h g i = (h', a) \<Longrightarrow>
     a = length h \<and> take (length h) h' = h \<and> length h' = Suc (length h) \<and>
     h' ! a = \<lparr>getDb = g, preparedStatement = None, resolved = None, PRIV = i\<rparr>"
  by (auto simp: new_DatabaseTableQuery_def)

lemma builder_is_new:
  "\<exists>i. builder h this call = new_DatabaseTableQuery h (getDb (h ! this)) i"
  by (cases call)
     (auto simp: select_def where_q_def limit_q_def orderBy_q_def pipe_def pipeOne_def
        pipeMaybeOne_def pipeFirst_def pipeMaybeFirst_def pipeInternal_def Let_def)

text \<open>
  C5. Every builder operation (\<^verbatim>\<open>select\<close>, \<^verbatim>\<open>where\<close>, \<^verbatim>\<open>limit\<close>, \<^verbatim>\<open>orderBy\<close>, \<^verbatim>\<open>pipe\<close> and
  its variants) returns a new query: an object at an address the store did not have. Every
  object of the store, the receiver among them, is afterwards what it was before, field
  by field. The new object shares the receiver's \<^verbatim>\<open>getDb\<close> and starts with empty caches.
\<close>

theorem builders_leave_receiver_unchanged:
  assumes "this < length h" and "builder h this call = (h', a)"
  shows "a = length h \<and> a \<noteq> this \<and> length h' = Suc (length h) \<and> take (length h) h' = h \<and>
         h' ! this = h ! this \<and>
         getDb (h' ! a) = getDb (h ! this) \<and> preparedStatement (h' ! a) = None \<and>
         resolved (h' ! a) = None"
proof -
  obtain i where "builder h this call = new_DatabaseTableQuery h (getDb (h ! this)) i"
    using builder_is_new by blast
  with assms(2) have n: "new_DatabaseTableQuery h (getDb (h ! this)) i = (h', a)" by simp
  from new_DatabaseTableQuery_frame[OF n] have
    a: "a = length h" and t: "take (length h) h' = h" and l: "length h' = Suc (length h)"
    and o: "h' ! a = \<lparr>getDb = getDb (h ! this), preparedStatement = None, resolved = None, PRIV = i\<rparr>"
    by auto
  have "h' ! this = take (length h) h' ! this" using assms(1) by simp
  then have "h' ! this = h ! this" using t by simp
  with a t l o assms(1) show ?thesis by simp
qed

theorem builders_leave_receiver_unchanged_witness:
  "(0::nat) < length sample_store \<and>
   snd (builder sample_store 0 (Pipe ''id'' ''joinUsersTasks'' ''user_id'')) = 1 \<and>
   fst (builder sample_store 0 (Pipe ''id'' ''joinUsersTasks'' ''user_id'')) ! 0 = sample_store ! 0"
proof -
  have l: "(0::nat) < length sample_store"
    by (simp add: sample_store_def create_def new_DatabaseTableQuery_def)
  have b: "builder sample_store 0 (Pipe ''id'' ''joinUsersTasks'' ''user_id'') =
        (fst (builder sample_store 0 (Pipe ''id'' ''joinUsersTasks'' ''user_id'')),
         snd (builder sample_store 0 (Pipe ''id'' ''joinUsersTasks'' ''user_id'')))"
    by simp
  have "length sample_store = 1"
    by (simp add: sample_store_def create_def new_DatabaseTableQuery_def)
  with builders_leave_receiver_unchanged[OF l b] l show ?thesis by simp
qed

text \<open>
  C2, as the code has it. \<^verbatim>\<open>where(p2)\<close> copies the receiver's fields and sets the where
  to \<open>p2\<close>: the new query's where is \<open>p2\<close> alone, whatever where the receiver had, so
  after \<^verbatim>\<open>where(p1).where(p2)\<close> nothing of \<open>p1\<close> is left.
\<close>

theorem where_replaces_existing_where:
  "PRIV (fst (where_q h this p2) ! snd (where_q h this p2)) =
     Internal (int_schema (PRIV (h ! this))) (int_table (PRIV (h ! this)))
       (int_selection (PRIV (h ! this))) (Some p2) (int_limit (PRIV (h ! this)))
       (int_orderBy (PRIV (h ! this))) (int_parent (PRIV (h ! this)))
   \<and> int_where (PRIV (fst (where_q (fst (where_q h this p1)) (snd (where_q h this p1)) p2) !
                      snd (where_q (fst (where_q h this p1)) (snd (where_q h this p1)) p2)))
       = Some p2"
  by (simp add: where_q_def new_DatabaseTableQuery_def Let_def nth_append)

text \<open>
  C2 as stated fails: after \<^verbatim>\<open>.where({id: 1}).where({name: 'John'})\<close> on the users query
  the where is \<^verbatim>\<open>{name: 'John'}\<close>, not the conjunction of the two, and the row of a user
  2 named John satisfies it though it does not satisfy \<^verbatim>\<open>{id: 1}\<close>.
\<close>

theorem where_conjunction_counterexample:
  "int_where (PRIV (fst (where_q (fst (where_q sample_store 0 [(''id'', VNum 1)])) 1
                           [(''name'', VStr ''John'')]) ! 2))
     = Some [(''name'', VStr ''John'')]
   \<and> Some [(''name'', VStr ''John'')]
       \<noteq> Some (where_and_spec (Some [(''id'', VNum 1)]) [(''name'', VStr ''John'')])
   \<and> whereHolds
        (int_where (PRIV (fst (where_q (fst (where_q sample_store 0 [(''id'', VNum 1)])) 1
                                 [(''name'', VStr ''John'')]) ! 2)))
        [(''id'', VNum 2), (''name'', VStr ''John'')]
   \<and> \<not> whereHolds (Some [(''id'', VNum 1)]) [(''id'', VNum 2), (''name'', VStr ''John'')]"
  by (simp add: where_q_def new_DatabaseTableQuery_def Let_def sample_store_def create_def
        where_and_spec_def whereHolds_def getProp_def)

section \<open>Properties of the terminal operations\<close>

text \<open>
  C1, as the code has it. With \<open>results\<close> the shaped results of the query: \<^verbatim>\<open>one\<close>
  raises unless there is exactly one result and then returns it; \<^verbatim>\<open>maybeOne\<close> raises
  on two or more, returns \<^verbatim>\<open>null\<close> on none, and otherwise returns the one result,
  with \<^verbatim>\<open>null\<close> in the place of a result that is \<^verbatim>\<open>undefined\<close>; \<^verbatim>\<open>first\<close> raises on none
  and otherwise returns the first result; \<^verbatim>\<open>maybeFirst\<close> never raises, returns \<^verbatim>\<open>null\<close>
  on none and otherwise the first result, again with \<^verbatim>\<open>null\<close> for \<^verbatim>\<open>undefined\<close>.
\<close>

theorem cardinality_shapers:
  assumes "getPreparedStatement E this = (Inr st, this1)"
    and "buildResult E this1 rs = (Inr results, this2)"
  shows "fst (one E this rs) =
           (if length results = 1 then Inr (results ! 0) else Inl (Expected1Result (length results)))
       \<and> fst (maybeOne E this rs) =
           (if 2 \<le> length results then Inl (ExpectedMaybe1Result (length results))
            else if length results = 0 then Inr VNull
            else Inr (if results ! 0 = VUndefined then VNull else results ! 0))
       \<and> fst (first E this rs) =
           (if length results = 0 then Inl ExpectedAtLeast1Result else Inr (results ! 0))
       \<and> fst (maybeFirst E this rs) =
           (if length results = 0 then Inr VNull
            else Inr (if results ! 0 = VUndefined then VNull else results ! 0))"
proof -
  have o: "fst (one E this rs) =
           (if length results = 1 then Inr (results ! 0) else Inl (Expected1Result (length results)))"
    using assms by (cases results) (simp_all add: one_def)
  have m: "fst (maybeOne E this rs) =
           (if 2 \<le> length results then Inl (ExpectedMaybe1Result (length results))
            else if length results = 0 then Inr VNull
            else Inr (if results ! 0 = VUndefined then VNull else results ! 0))"
    using assms by (cases results) (auto simp: maybeOne_def nullish_def Suc_le_eq)
  have f: "fst (first E this rs) =
           (if length results = 0 then Inl ExpectedAtLeast1Result else Inr (results ! 0))"
    using assms by (cases results) (simp_all add: first_def)
  have mf: "fst (maybeFirst E this rs) =
           (if length results = 0 then Inr VNull
            else Inr (if results ! 0 = VUndefined then VNull else results ! 0))"
    using assms by (cases results) (auto simp: maybeFirst_def nullish_def)
  from o m f mf show ?thesis by blast
qed

theorem cardinality_shapers_witness:
  "fst (one sample_env users_tasks_obj (take 2 users_tasks_rows)) =
     Inr (VObj [(''id'', VNum 1), (''name'', VStr ''John''),
                (''joinUsersTasks'', VArr [VObj [(''task_id'', VNum 1)], VObj [(''task_id'', VNum 2)]])])
   \<and> fst (one sample_env users_tasks_obj users_tasks_rows) = Inl (Expected1Result 4)
   \<and> fst (maybeOne sample_env users_tasks_obj users_tasks_rows) = Inl (ExpectedMaybe1Result 4)
   \<and> fst (maybeFirst sample_env users_tasks_obj []) = Inr VNull"
proof -
  let ?st = "\<lparr>source = ''SELECT _0.task_id _0.user_id _1.* '', bound = None\<rparr>"
  let ?this1 = "users_tasks_obj\<lparr>preparedStatement := Some ?st,
                   resolved := Some (users_rq, [tasks_join KMany])\<rparr>"
  let ?u1 = "VObj [(''id'', VNum 1), (''name'', VStr ''John''),
                (''joinUsersTasks'', VArr [VObj [(''task_id'', VNum 1)], VObj [(''task_id'', VNum 2)]])]"
  have p: "getPreparedStatement sample_env users_tasks_obj = (Inr ?st, ?this1)"
    by code_simp
  have b2: "buildResult sample_env ?this1 (take 2 users_tasks_rows) = (Inr [?u1], ?this1)"
    by code_simp
  have b4: "buildResult sample_env ?this1 users_tasks_rows =
     (Inr [?u1,
           VObj [(''id'', VNum 2), (''name'', VStr ''Jane''),
                 (''joinUsersTasks'', VArr [VObj [(''task_id'', VNum 3)]])],
           VObj [(''id'', VNum 3), (''name'', VStr ''Jack''),
                 (''joinUsersTasks'', VArr [VObj [(''task_id'', VNum 1)]])],
           VObj [(''id'', VNum 4), (''name'', VStr ''Jill''), (''joinUsersTasks'', VArr [])]],
      ?this1)"
    by code_simp
  have b0: "buildResult sample_env ?this1 [] = (Inr [], ?this1)"
    by code_simp
  from cardinality_shapers[OF p b2] cardinality_shapers[OF p b4] cardinality_shapers[OF p b0]
  show ?thesis by simp
qed

text \<open>
  C1 as stated fails for \<^verbatim>\<open>maybeOne\<close> and \<^verbatim>\<open>maybeFirst\<close>: the users query without a
  selection has the one result \<^verbatim>\<open>undefined\<close> for a single row, and both return \<^verbatim>\<open>null\<close>,
  which is not that result.
\<close>

theorem maybeOne_undefined_counterexample:
  "fst (buildResult sample_env users_obj [[(''_0.id'', VNum 1)]]) = Inr [VUndefined]
   \<and> fst (maybeOne sample_env users_obj [[(''_0.id'', VNum 1)]]) = Inr VNull
   \<and> fst (maybeFirst sample_env users_obj [[(''_0.id'', VNum 1)]]) = Inr VNull
   \<and> VNull \<noteq> VUndefined"
  by code_simp

section \<open>Properties of the result building\<close>























section \<open>Properties of the emitted statement\<close>

lemma resultColumns_resolvedQueryToSelect:
  "resultColumns (fst (resolvedQueryToSelect E m r j)) =
     map (\<lambda>col. ResultColumnExpr (Column col (Some (tableAlias r))) (dotCol (tableAlias r) col))
       (dedupe E ((case columns r of None \<Rightarrow> [] | Some cs \<Rightarrow> cs) @ joinColumns r @ primaryColumns r))
     @ (case j of None \<Rightarrow> [] | Some ja \<Rightarrow> [ResultColumnTableStar (tableAlias (ja_query ja))])"
  by (cases j) (simp_all add: resolvedQueryToSelect_def Let_def isNotNull_filter_def split: prod.splits)

lemma from_resolvedQueryToSelect:
  "from_clause (fst (resolvedQueryToSelect E m r j)) = createFrom r j"
  by (simp add: resolvedQueryToSelect_def Let_def split: prod.splits)

lemma fetchedColumns_sel:
  "fetchedColumns tc s =
     concat (map (\<lambda>rc. case rc of
                          ResultColumnExpr e a \<Rightarrow> [a]
                        | ResultColumnTableStar t \<Rightarrow> starColumns tc (from_clause s) t) (resultColumns s))"
  by (cases s) (simp cong: ResultColumn.case_cong)

lemma fetchedColumns_base:
  "fetchedColumns tc (fst (resolvedQueryToSelect E m r None)) =
     map (\<lambda>col. dotCol (tableAlias r) col)
       (dedupe E ((case columns r of None \<Rightarrow> [] | Some cs \<Rightarrow> cs) @ joinColumns r @ primaryColumns r))"
  by (simp add: fetchedColumns_sel resultColumns_resolvedQueryToSelect comp_def)

lemma fetchedColumns_join:
  "fetchedColumns tc (fst (resolvedQueryToSelect E m r
       (Some \<lparr>ja_join = jn, ja_query = prev, ja_select = node\<rparr>))) =
     map (\<lambda>col. dotCol (tableAlias r) col)
       (dedupe E ((case columns r of None \<Rightarrow> [] | Some cs \<Rightarrow> cs) @ joinColumns r @ primaryColumns r))
     @ fetchedColumns tc node
     @ (if tableAlias r = tableAlias prev then tc (table r) else [])"
  by (simp add: fetchedColumns_sel resultColumns_resolvedQueryToSelect comp_def
        from_resolvedQueryToSelect createFrom_def)

lemma wrapJoins_fetched:
  "set (fetchedColumns tc node) \<union>
   (\<Union>item\<in>set items. (\<lambda>col. dotCol (tableAlias (query item)) col) `
      set (dedupe E ((case columns (query item) of None \<Rightarrow> [] | Some cs \<Rightarrow> cs)
                      @ joinColumns (query item) @ primaryColumns (query item))))
   \<subseteq> set (fetchedColumns tc (fst (wrapJoins E m prev node items)))"
proof (induction items arbitrary: m prev node)
  case Nil
  then show ?case by simp
next
  case (Cons item items)
  obtain node' m' where s: "resolvedQueryToSelect E m (query item)
              (Some \<lparr>ja_join = join item, ja_query = prev, ja_select = node\<rparr>) = (node', m')"
    by (cases "resolvedQueryToSelect E m (query item)
              (Some \<lparr>ja_join = join item, ja_query = prev, ja_select = node\<rparr>)")
  have f: "fetchedColumns tc node' =
     map (\<lambda>col. dotCol (tableAlias (query item)) col)
       (dedupe E ((case columns (query item) of None \<Rightarrow> [] | Some cs \<Rightarrow> cs)
                      @ joinColumns (query item) @ primaryColumns (query item)))
     @ fetchedColumns tc node
     @ (if tableAlias (query item) = tableAlias prev then tc (table (query item)) else [])"
    using fetchedColumns_join[of tc E m "query item" "join item" prev node] s by simp
  have w: "wrapJoins E m prev node (item # items) = wrapJoins E m' (query item) node' items"
    using s by simp
  from Cons.IH[of node' m' "query item"] f w show ?case by auto
qed

lemma primary_keys_fetched:
  assumes d: "\<forall>xs. set (dedupe E xs) = set xs"
    and i: "r \<in> set (baseQuery # map query joins)"
    and p: "pk \<in> set (primaryColumns r)"
  shows "dotCol (tableAlias r) pk \<in> set (fetchedColumns tc (fst (buildQueryNode E (baseQuery, joins))))"
proof -
  obtain node0 m0 where n: "resolvedQueryToSelect E [] baseQuery None = (node0, m0)"
    by (cases "resolvedQueryToSelect E [] baseQuery None")
  have st: "fst (buildQueryNode E (baseQuery, joins)) = fst (wrapJoins E m0 baseQuery node0 joins)"
    using n by (simp add: buildQueryNode_def)
  have b: "fetchedColumns tc node0 =
     map (\<lambda>col. dotCol (tableAlias baseQuery) col)
       (dedupe E ((case columns baseQuery of None \<Rightarrow> [] | Some cs \<Rightarrow> cs)
                    @ joinColumns baseQuery @ primaryColumns baseQuery))"
    using fetchedColumns_base[of tc E "[]" baseQuery] n by simp
  have sel: "pk \<in> set (dedupe E ((case columns r of None \<Rightarrow> [] | Some cs \<Rightarrow> cs)
                    @ joinColumns r @ primaryColumns r))"
    using d p by simp
  have "dotCol (tableAlias r) pk \<in> set (fetchedColumns tc node0) \<union>
   (\<Union>item\<in>set joins. (\<lambda>col. dotCol (tableAlias (query item)) col) `
      set (dedupe E ((case columns (query item) of None \<Rightarrow> [] | Some cs \<Rightarrow> cs)
                      @ joinColumns (query item) @ primaryColumns (query item))))"
  proof (cases "r = baseQuery")
    case True
    then show ?thesis using b sel by simp
  next
    case False
    with i obtain item where "item \<in> set joins" and "r = query item" by auto
    then show ?thesis using sel by blast
  qed
  with wrapJoins_fetched[where tc = tc and node = node0 and items = joins and E = E and m = m0
      and prev = baseQuery] st show ?thesis by auto
qed

text \<open>
  C10, as the code has it. The result columns of the select of a resolved query are the
  deduplicated concatenation of its selected columns, its join columns and its table's
  primary-key columns, each aliased to \<^verbatim>\<open><tableAlias>.<column>\<close>, followed, when the
  select joins the table onto the select of the previous query, by \<^verbatim>\<open><alias>.*\<close> for
  the alias of that previous query. So, when \<^verbatim>\<open>dedupe\<close> keeps every element of its
  argument, the rows that the statement fetches have the primary-key cell
  \<^verbatim>\<open><tableAlias>.<pk>\<close> of every table of the query, selected or not.
\<close>

theorem result_columns_of_select:
  "resultColumns (fst (resolvedQueryToSelect E m r j)) =
     map (\<lambda>col. ResultColumnExpr (Column col (Some (tableAlias r))) (dotCol (tableAlias r) col))
       (dedupe E ((case columns r of None \<Rightarrow> [] | Some cs \<Rightarrow> cs) @ joinColumns r @ primaryColumns r))
     @ (case j of None \<Rightarrow> [] | Some ja \<Rightarrow> [ResultColumnTableStar (tableAlias (ja_query ja))])
   \<and> ((\<forall>xs. set (dedupe E xs) = set xs) \<and> r' \<in> set (baseQuery # map query joins) \<and>
        pk \<in> set (primaryColumns r') \<longrightarrow>
        dotCol (tableAlias r') pk \<in> set (fetchedColumns tc (fst (buildQueryNode E (baseQuery, joins)))))"
  using resultColumns_resolvedQueryToSelect[of E m r j]
    primary_keys_fetched[of E r' baseQuery joins pk tc]
  by blast

text \<open>The sample query selects only \<^verbatim>\<open>task_id\<close> of the join table and \<^verbatim>\<open>id\<close>, \<^verbatim>\<open>name\<close>
  of the users; the key cell \<^verbatim>\<open>_0.user_id\<close> is fetched all the same.\<close>

theorem result_columns_of_select_witness:
  "(\<forall>xs. set (dedupe sample_env xs) = set xs)
   \<and> tasks_rq \<in> set (users_rq # map query [tasks_join KMany])
   \<and> ''user_id'' \<in> set (primaryColumns tasks_rq)
   \<and> ''_0.user_id'' \<in> set (fetchedColumns (\<lambda>t. []) (fst (buildQueryNode sample_env (users_rq, [tasks_join KMany]))))"
proof -
  have d: "\<forall>xs. set (dedupe sample_env xs) = set xs" by (simp add: sample_env_def)
  have i: "tasks_rq \<in> set (users_rq # map query [tasks_join KMany])" by (simp add: tasks_join_def)
  have p: "''user_id'' \<in> set (primaryColumns tasks_rq)" by (simp add: tasks_rq_def)
  have a: "dotCol (tableAlias tasks_rq) ''user_id'' = ''_0.user_id''"
    by (simp add: tasks_rq_def dotCol_def)
  have "dotCol (tableAlias tasks_rq) ''user_id'' \<in>
          set (fetchedColumns (\<lambda>t. []) (fst (buildQueryNode sample_env (users_rq, [tasks_join KMany]))))"
    using result_columns_of_select[of sample_env "[]" users_rq None tasks_rq users_rq
        "[tasks_join KMany]" "''user_id''" "\<lambda>t. []"] d i p
    by blast
  with a d i p show ?thesis by simp
qed

text \<open>
  C10 as stated fails for a joined query: the select of the join table of the sample
  query has, after its two aliased columns, the result column \<^verbatim>\<open>_1.*\<close>, which is not among
  the deduplicated columns.
\<close>

theorem result_columns_counterexample:
  "resultColumns (fst (resolvedQueryToSelect sample_env [] tasks_rq
       (Some \<lparr>ja_join = join (tasks_join KMany), ja_query = users_rq,
              ja_select = fst (resolvedQueryToSelect sample_env [] users_rq None)\<rparr>)))
     = [ResultColumnExpr (Column ''task_id'' (Some ''_0'')) ''_0.task_id'',
        ResultColumnExpr (Column ''user_id'' (Some ''_0'')) ''_0.user_id'',
        ResultColumnTableStar ''_1'']
   \<and> map (\<lambda>col. ResultColumnExpr (Column col (Some (tableAlias tasks_rq))) (dotCol (tableAlias tasks_rq) col))
        (dedupe sample_env ((case columns tasks_rq of None \<Rightarrow> [] | Some cs \<Rightarrow> cs)
            @ joinColumns tasks_rq @ primaryColumns tasks_rq))
     = [ResultColumnExpr (Column ''task_id'' (Some ''_0'')) ''_0.task_id'',
        ResultColumnExpr (Column ''user_id'' (Some ''_0'')) ''_0.user_id'']"
  by code_simp

lemma getResolved_again:
  assumes "getResolved this = (r1, this1)"
  shows "getResolved this1 = (r1, this1) \<and> preparedStatement this1 = preparedStatement this"
  using assms by (auto simp: getResolved_def split: option.splits sum.splits)

lemma getPreparedStatement_again:
  assumes "getPreparedStatement E this = (r1, this1)"
  shows "getPreparedStatement E this1 = (r1, this1)"
  using assms
  by (auto simp: getPreparedStatement_def getResolved_def Let_def
      split: option.splits sum.splits prod.splits)

lemma getPreparedStatement_cached:
  "getPreparedStatement E this = (Inr st, this1) \<Longrightarrow> preparedStatement this1 = Some st"
  by (auto simp: getPreparedStatement_def getResolved_def Let_def
      split: option.splits sum.splits prod.splits)

lemma getPreparedStatement_of_cache:
  "preparedStatement this = Some st \<Longrightarrow> getPreparedStatement E this = (Inr st, this)"
  by (simp add: getPreparedStatement_def)

lemma emit_again:
  assumes "emit E this = (t, this1)"
  shows "emit E this1 = (t, this1)"
proof (cases "getPreparedStatement E this")
  case (Pair r1 a)
  show ?thesis
  proof (cases r1)
    case (Inl e)
    with Pair assms have "t = Inl e" and "this1 = a" by (simp_all add: emit_def)
    moreover have "getPreparedStatement E a = (Inl e, a)"
      using getPreparedStatement_again[OF Pair] Inl by simp
    ultimately show ?thesis by (simp add: emit_def)
  next
    case (Inr st)
    obtain r2 b where g: "getResolved a = (r2, b)" by (cases "getResolved a")
    from Pair Inr have c: "preparedStatement a = Some st"
      using getPreparedStatement_cached[of E this st a] by simp
    from getResolved_again[OF g] c have g2: "getResolved b = (r2, b)"
      and c2: "preparedStatement b = Some st" by simp_all
    from getPreparedStatement_of_cache[OF c2] have p2: "getPreparedStatement E b = (Inr st, b)" .
    from Pair Inr g assms have t: "(t, this1) =
        (case r2 of Inl e \<Rightarrow> (Inl e, b) | Inr r \<Rightarrow> (Inr (source st, bound st, r), b))"
      by (simp add: emit_def split: sum.splits)
    then have "this1 = b" by (cases r2) simp_all
    with t p2 g2 show ?thesis by (cases r2) (simp_all add: emit_def)
  qed
qed

lemma emit_fresh:
  "fst (emit E \<lparr>getDb = g, preparedStatement = None, resolved = None, PRIV = i\<rparr>) =
     (case resolveInternal (int_schema i) i None 0 of
        Inl e \<Rightarrow> Inl e
      | Inr r \<Rightarrow> Inr (printNode E (fst (buildQueryNode E r)),
                      paramsFromMap E (snd (buildQueryNode E r)), r))"
proof (cases "resolveInternal (int_schema i) i None 0")
  case (Inl e)
  then show ?thesis by (simp add: emit_def getPreparedStatement_def getResolved_def)
next
  case (Inr r)
  then show ?thesis
    by (simp add: emit_def getPreparedStatement_def getResolved_def Let_def case_prod_beta)
qed

text \<open>
  C8. Emitting a query a second time gives what the first emission gave, the same text,
  the same parameters and the same plan, and leaves the object as the first emission
  left it, errors included; and what a new query object emits is a function of the query
  value alone (given the functions that are parameters), so two objects of the same
  query emit the same. The source has no id generator: the aliases are \<^verbatim>\<open>_0\<close>,
  \<^verbatim>\<open>_1\<close>, ... by depth.
\<close>

theorem emission_idempotent:
  "(emit E this = (t, this1) \<longrightarrow> emit E this1 = (t, this1))
   \<and> fst (emit E \<lparr>getDb = g, preparedStatement = None, resolved = None, PRIV = i\<rparr>) =
       (case resolveInternal (int_schema i) i None 0 of
          Inl e \<Rightarrow> Inl e
        | Inr r \<Rightarrow> Inr (printNode E (fst (buildQueryNode E r)),
                        paramsFromMap E (snd (buildQueryNode E r)), r))"
  using emit_again[of E this t this1] emit_fresh[of E g i] by blast

theorem emission_idempotent_witness:
  "fst (emit sample_env users_where_obj) =
     Inr (''SELECT _0.name _0.id '', Some [(''p0'', VStr ''John'')],
          (\<lparr>table = ''users'', tableAlias = ''_0'', limit = Some 10, offset = None,
            columns = Some [''name''], joinColumns = [], primaryColumns = [''id''],
            where_r = Some [(''name'', VStr ''John'')], orderBy = None\<rparr>, []))
   \<and> emit sample_env (snd (emit sample_env users_where_obj)) = emit sample_env users_where_obj"
proof -
  have e: "emit sample_env users_where_obj =
             (fst (emit sample_env users_where_obj), snd (emit sample_env users_where_obj))"
    by simp
  have v: "fst (emit sample_env users_where_obj) =
     Inr (''SELECT _0.name _0.id '', Some [(''p0'', VStr ''John'')],
          (\<lparr>table = ''users'', tableAlias = ''_0'', limit = Some 10, offset = None,
            columns = Some [''name''], joinColumns = [], primaryColumns = [''id''],
            where_r = Some [(''name'', VStr ''John'')], orderBy = None\<rparr>, []))"
    by code_simp
  from emission_idempotent[of sample_env users_where_obj "fst (emit sample_env users_where_obj)"
      "snd (emit sample_env users_where_obj)", THEN conjunct1] e
  have "emit sample_env (snd (emit sample_env users_where_obj)) = emit sample_env users_where_obj"
    by simp
  with v show ?thesis by simp
qed

section \<open>Properties of the CTE decision\<close>

text \<open>
  The statements that the tests of the repository expect, against the printer with the join
  among the promoting places. The texts agree up to layout.
\<close>

lemma not_in_subquery_statement: "unspaced (emitted_sql test_env promoting_place usersWithNoTasks 2) = unspaced usersWithNoTasks_sql"
  by code_simp

lemma queryFrom_statement: "unspaced (emitted_sql test_env promoting_place withCte 16) = unspaced withCte_sql"
  by code_simp

lemma in_subquery_statement: "unspaced (emitted_sql test_env promoting_place filteredUsers 5) = unspaced filteredUsers_sql"
  by code_simp

lemma joined_table_statement: "unspaced (emitted_sql test_env promoting_place usersWithGroups 14) = unspaced usersWithGroups_sql"
  by code_simp

text \<open>
  Counting. Under a set of ids \<^verbatim>\<open>H\<close> taken as CTEs, every reference to a derived query
  outside \<^verbatim>\<open>H\<close> is written inline once, in the text at hand or in a CTE body that the text
  refers to; and nothing in \<^verbatim>\<open>H\<close> is ever written inline.
\<close>

lemma site_refs_append [simp]: "site_refs i (L1 @ L2) = site_refs i L1 + site_refs i L2" by (simp add: site_refs_def)

lemma nested_inlines_append [simp]: "nested_inlines H i (L1 @ L2) = nested_inlines H i L1 + nested_inlines H i L2" by (simp add: nested_inlines_def)

lemma site_refs_Nil [simp]: "site_refs i [] = 0" by (simp add: site_refs_def)

lemma nested_inlines_Nil [simp]: "nested_inlines H i [] = 0" by (simp add: nested_inlines_def)

lemma site_refs_concat: "site_refs i (concat Ls) = sum_list (map (site_refs i) Ls)" by (induction Ls) simp_all

lemma nested_inlines_concat: "nested_inlines H i (concat Ls) = sum_list (map (nested_inlines H i) Ls)" by (induction Ls) simp_all


lemma balanced_Nil [simp]: "balanced H i [] []" by (simp add: balanced_def)













lemma unhoisted_only_Nil [simp]: "unhoisted_only H []" by (simp add: unhoisted_only_def)




























section \<open>Properties of the parameters\<close>


lemma bind_all_Nil [simp]: "bind_all E [] s = ([], s)"
  by (simp add: bind_all_def)
































text \<open>
  The external of \<^verbatim>\<open>schema.tasks.query().limit(Expr.external(10))\<close>: the test expects
  \<^verbatim>\<open>sql: "SELECT tasks.* FROM tasks LIMIT :_id4"\<close> and \<^verbatim>\<open>params: { _id4: 10 }\<close>
  (\<^verbatim>\<open>readme.test.ts\<close>, lines 70 to 74), four ids having been drawn before.
\<close>

lemma external_limit_statement: "emit_statement test_env promoting_place tasks_limit 4 =
   (''SELECT tasks.* FROM tasks LIMIT :_id4'', [(''_id4'', VNum 10)], 5)"
  by code_simp



end
